theory Spec2Isabelle
  imports Complex_Main
begin

section \<open>Heater (klippy/heater.py)\<close>

text \<open>
  Python floats are modelled as \<^typ>\<open>real\<close>: comparisons, \<open>abs\<close>, \<open>min\<close>, \<open>max\<close> and the
  arithmetic are those of the reals (no rounding, no NaN, no overflow), and \<open>math.exp\<close> is
  \<^const>\<open>exp\<close>. A float used as a condition (\<open>if degrees\<close>, \<open>not self.last_pwm_value\<close>) is
  its comparison with 0.
\<close>

definition KELVIN_TO_CELCIUS :: real where "KELVIN_TO_CELCIUS = - 273.15"
definition MAX_HEAT_TIME :: real where "MAX_HEAT_TIME = 5.0"
definition AMBIENT_TEMP :: real where "AMBIENT_TEMP = 25"
definition PID_PARAM_BASE :: real where "PID_PARAM_BASE = 255"

text \<open>
  The exceptions of the two modules: \<open>heater.error\<close> with the three numbers of its message
  (requested temperature, \<open>min_temp\<close>, \<open>max_temp\<close>), and the built-in exceptions a division,
  an index or a dictionary lookup raises.
\<close>

datatype error = HeaterError real real real | ZeroDivisionError | IndexError | KeyError

text \<open>
  The fields of class \<open>Heater\<close> that the control code reads or writes. The active control
  object is kept beside the heater (see \<open>control\<close> below), since each refers to the other.
  The external PWM driver \<open>mcu_pwm\<close> is the list of its \<open>set_pwm(pwm_time, value)\<close> calls,
  oldest first. \<open>set_pwm_calls\<close> is a history variable, not a field of the class: the
  \<open>(read_time, value)\<close> arguments of every call of \<open>Heater.set_pwm\<close>, oldest first.
\<close>

record Heater =
  min_temp :: real
  max_temp :: real
  pwm_delay :: real
  min_extrude_temp :: real
  max_power :: real
  last_temp :: real
  last_temp_time :: real
  target_temp :: real
  can_extrude :: bool
  next_pwm_time :: real
  last_pwm_value :: real
  mcu_pwm :: "(real \<times> real) list"
  set_pwm_calls :: "(real \<times> real) list"

text \<open>
  \<open>Heater.__init__\<close>: the configuration values (\<open>config.getfloat\<close> has checked
  \<open>min_temp \<ge> KELVIN_TO_CELCIUS\<close>, \<open>max_temp > min_temp\<close>,
  \<open>min_temp \<le> min_extrude_temp \<le> max_temp\<close>, \<open>0 < max_power \<le> 1\<close>), the sensor's report
  time delta as \<open>pwm_delay\<close>, \<open>is_fileoutput\<close> of the micro-controller, and the initial
  run-time state.
\<close>

definition Heater_init :: "real \<Rightarrow> real \<Rightarrow> real \<Rightarrow> real \<Rightarrow> real \<Rightarrow> bool \<Rightarrow> Heater" where
  "Heater_init cfg_min_temp cfg_max_temp report_time_delta cfg_min_extrude_temp cfg_max_power
       is_fileoutput =
     \<lparr> min_temp = cfg_min_temp, max_temp = cfg_max_temp, pwm_delay = report_time_delta,
       min_extrude_temp = cfg_min_extrude_temp, max_power = cfg_max_power,
       last_temp = 0, last_temp_time = 0, target_temp = 0,
       can_extrude = (cfg_min_extrude_temp \<le> 0 \<or> is_fileoutput),
       next_pwm_time = 0, last_pwm_value = 0, mcu_pwm = [], set_pwm_calls = [] \<rparr>"

text \<open>
  \<open>Heater.set_pwm(read_time, value)\<close>: returns the pair the method returns and the heater
  after the call.
\<close>

definition Heater_set_pwm :: "Heater \<Rightarrow> real \<Rightarrow> real \<Rightarrow> (real \<times> real) \<times> Heater" where
  "Heater_set_pwm h0 read_time value0 =
     (let h = h0\<lparr>set_pwm_calls := set_pwm_calls h0 @ [(read_time, value0)]\<rparr>;
          value = (if target_temp h \<le> 0 then 0 else value0)
      in if (read_time < next_pwm_time h \<or> last_pwm_value h = 0)
            \<and> \<bar>value - last_pwm_value h\<bar> < 0.05
         then ((0, last_pwm_value h), h)
         else
           let pwm_time = read_time + pwm_delay h;
               h1 = h\<lparr>next_pwm_time := pwm_time + 0.75 * MAX_HEAT_TIME\<rparr>;
               h2 = h1\<lparr>last_pwm_value := value\<rparr>;
               h3 = h2\<lparr>mcu_pwm := mcu_pwm h2 @ [(pwm_time, value)]\<rparr>
           in ((pwm_time, value), h3))"

text \<open>
  \<open>Heater.set_temp(print_time, degrees)\<close>: the exception raised, if any, and the heater
  after the call.
\<close>

definition Heater_set_temp :: "Heater \<Rightarrow> real \<Rightarrow> real \<Rightarrow> error option \<times> Heater" where
  "Heater_set_temp h print_time degrees =
     (if degrees \<noteq> 0 \<and> (degrees < min_temp h \<or> degrees > max_temp h)
      then (Some (HeaterError degrees (min_temp h) (max_temp h)), h)
      else (None, h\<lparr>target_temp := degrees\<rparr>))"

text \<open>
  The head of \<open>Heater.temperature_callback\<close>, before it forwards the sample to the active
  control object (the forwarding is \<open>Heater_temperature_callback\<close> below).
\<close>

definition Heater_note_sample :: "Heater \<Rightarrow> real \<Rightarrow> real \<Rightarrow> Heater" where
  "Heater_note_sample h read_time temp =
     (let h1 = h\<lparr>last_temp := temp\<rparr>;
          h2 = h1\<lparr>last_temp_time := read_time\<rparr>
      in h2\<lparr>can_extrude := (temp \<ge> min_extrude_temp h2)\<rparr>)"

section \<open>Bang-bang control\<close>

record ControlBangBang =
  max_delta :: real
  heating :: bool

definition ControlBangBang_init :: "real \<Rightarrow> ControlBangBang" where
  "ControlBangBang_init cfg_max_delta = \<lparr> max_delta = cfg_max_delta, heating = False \<rparr>"

definition ControlBangBang_temperature_callback ::
  "ControlBangBang \<Rightarrow> Heater \<Rightarrow> real \<Rightarrow> real \<Rightarrow> ControlBangBang \<times> Heater" where
  "ControlBangBang_temperature_callback c h read_time temp =
     (let c1 = (if heating c \<and> temp \<ge> target_temp h + max_delta c
                then c\<lparr>heating := False\<rparr>
                else if \<not> heating c \<and> temp \<le> target_temp h - max_delta c
                then c\<lparr>heating := True\<rparr>
                else c)
      in if heating c1
         then (c1, snd (Heater_set_pwm h read_time (max_power h)))
         else (c1, snd (Heater_set_pwm h read_time 0)))"

section \<open>PID control\<close>

record ControlPID =
  Kp :: real
  Ki :: real
  Kd :: real
  min_deriv_time :: real
  temp_integ_max :: real
  prev_temp :: real
  prev_temp_time :: real
  prev_temp_deriv :: real
  prev_temp_integ :: real

text \<open>
  \<open>ControlPID.__init__\<close>: \<open>pid_Kp\<close>, \<open>pid_Ki\<close>, \<open>pid_Kd\<close> are mandatory configuration values,
  \<open>pid_deriv_time\<close> (default 2, checked \<open>> 0\<close> by \<open>config.getfloat\<close>) and \<open>pid_integral_max\<close>
  (default \<open>heater.max_power\<close>, checked \<open>\<ge> 0\<close>) are optional. The division by \<open>Ki\<close> raises
  when \<open>Ki\<close> is 0.
\<close>

definition ControlPID_init ::
  "Heater \<Rightarrow> real \<Rightarrow> real \<Rightarrow> real \<Rightarrow> real option \<Rightarrow> real option \<Rightarrow> error + ControlPID" where
  "ControlPID_init h pid_Kp pid_Ki pid_Kd pid_deriv_time pid_integral_max =
     (let kp = pid_Kp / PID_PARAM_BASE;
          ki = pid_Ki / PID_PARAM_BASE;
          kd = pid_Kd / PID_PARAM_BASE;
          deriv_time = (case pid_deriv_time of None \<Rightarrow> 2 | Some v \<Rightarrow> v);
          imax = (case pid_integral_max of None \<Rightarrow> max_power h | Some v \<Rightarrow> v)
      in if ki = 0 then Inl ZeroDivisionError
         else Inr \<lparr> Kp = kp, Ki = ki, Kd = kd, min_deriv_time = deriv_time,
                    temp_integ_max = imax / ki, prev_temp = AMBIENT_TEMP,
                    prev_temp_time = 0, prev_temp_deriv = 0, prev_temp_integ = 0 \<rparr>)"

text \<open>
  \<open>ControlPID.temperature_callback\<close>. Each of the two derivative formulas divides; Python
  raises \<open>ZeroDivisionError\<close> on a zero divisor, before \<open>set_pwm\<close> is reached.
\<close>

definition ControlPID_temperature_callback ::
  "ControlPID \<Rightarrow> Heater \<Rightarrow> real \<Rightarrow> real \<Rightarrow> error + (ControlPID \<times> Heater)" where
  "ControlPID_temperature_callback c h read_time temp =
     (let time_diff = read_time - prev_temp_time c;
          temp_diff = temp - prev_temp c
      in if (if time_diff \<ge> min_deriv_time c then time_diff = 0 else min_deriv_time c = 0)
         then Inl ZeroDivisionError
         else
           let temp_deriv =
                 (if time_diff \<ge> min_deriv_time c
                  then temp_diff / time_diff
                  else (prev_temp_deriv c * (min_deriv_time c - time_diff) + temp_diff)
                       / min_deriv_time c);
               temp_err = target_temp h - temp;
               temp_integ0 = prev_temp_integ c + temp_err * time_diff;
               temp_integ = max 0 (min (temp_integ_max c) temp_integ0);
               co = Kp c * temp_err + Ki c * temp_integ - Kd c * temp_deriv;
               bounded_co = max 0 (min (max_power h) co);
               h' = snd (Heater_set_pwm h read_time bounded_co);
               c1 = c\<lparr>prev_temp := temp\<rparr>;
               c2 = c1\<lparr>prev_temp_time := read_time\<rparr>;
               c3 = c2\<lparr>prev_temp_deriv := temp_deriv\<rparr>;
               c4 = (if co = bounded_co then c3\<lparr>prev_temp_integ := temp_integ\<rparr> else c3)
           in Inr (c4, h'))"

text \<open>
  The local quantities of \<open>ControlPID.temperature_callback\<close> by name: whether a division
  raises, \<open>temp_deriv\<close>, the clamped \<open>temp_integ\<close> and \<open>co\<close>
  (\<open>ControlPID_temperature_callback_eq\<close> below restates the callback with them).
\<close>

definition PID_zero_div :: "ControlPID \<Rightarrow> real \<Rightarrow> bool" where
  "PID_zero_div c read_time =
     (if read_time - ControlPID.prev_temp_time c \<ge> min_deriv_time c
      then read_time - ControlPID.prev_temp_time c = 0 else min_deriv_time c = 0)"

definition PID_temp_deriv :: "ControlPID \<Rightarrow> real \<Rightarrow> real \<Rightarrow> real" where
  "PID_temp_deriv c read_time temp =
     (if read_time - ControlPID.prev_temp_time c \<ge> min_deriv_time c
      then (temp - ControlPID.prev_temp c) / (read_time - ControlPID.prev_temp_time c)
      else (prev_temp_deriv c * (min_deriv_time c - (read_time - ControlPID.prev_temp_time c))
            + (temp - ControlPID.prev_temp c)) / min_deriv_time c)"

definition PID_temp_integ :: "ControlPID \<Rightarrow> Heater \<Rightarrow> real \<Rightarrow> real \<Rightarrow> real" where
  "PID_temp_integ c h read_time temp =
     max 0 (min (temp_integ_max c)
       (prev_temp_integ c + (target_temp h - temp) * (read_time - ControlPID.prev_temp_time c)))"

definition PID_co :: "ControlPID \<Rightarrow> Heater \<Rightarrow> real \<Rightarrow> real \<Rightarrow> real" where
  "PID_co c h read_time temp =
     ControlPID.Kp c * (target_temp h - temp) + Ki c * PID_temp_integ c h read_time temp
       - Kd c * PID_temp_deriv c read_time temp"

section \<open>First order plus delay time (FOPDT) control\<close>

definition INV_AMBIENT_SMOOTH :: real where "INV_AMBIENT_SMOOTH = 1 / 8"
definition MIN_AMBIENT :: real where "MIN_AMBIENT = 0"
definition INV_TEMP_SMOOTH :: real where "INV_TEMP_SMOOTH = 1 / 2"

text \<open>
  The fields of \<open>ControlFOPDT\<close>; those that share a name with a field of \<open>Heater\<close> or
  \<open>ControlPID\<close> are told apart by the record's name (\<open>ControlFOPDT.next_pwm_time\<close>).
\<close>

record ControlFOPDT =
  gain :: real
  inv_gain :: real
  inv_time_constant :: real
  inv_delay :: real
  first_set_temp :: bool
  start_time :: real
  last_pwm_time :: real
  next_pwm_time :: real
  last_model_time :: real
  last_pwm :: real
  next_pwm :: real
  model_temp :: real
  last_model_temp :: real
  model_smooth_temp :: real
  smooth_ambient :: real
  did_fault :: bool
  Kp :: real
  prev_temp :: real
  prev_temp_time :: real
  temp_slope :: real

definition calc_model_temp :: "ControlFOPDT \<Rightarrow> real \<Rightarrow> real" where
  "calc_model_temp c read_time =
     (let time_diff = read_time - last_pwm_time c;
          tc_factor = exp (- time_diff * inv_time_constant c)
      in model_temp c * tc_factor + gain c * last_pwm c * (1 - tc_factor))"

text \<open>
  The three assignments both \<open>note_temperature\<close> and \<open>set_pwm\<close> make when the pending PWM
  value takes effect.
\<close>

definition apply_next_pwm :: "ControlFOPDT \<Rightarrow> ControlFOPDT" where
  "apply_next_pwm c =
     (let c1 = c\<lparr>model_temp := calc_model_temp c (next_pwm_time c)\<rparr>;
          c2 = c1\<lparr>last_pwm := next_pwm c1\<rparr>
      in c2\<lparr>last_pwm_time := next_pwm_time c2\<rparr>)"

definition note_temperature :: "ControlFOPDT \<Rightarrow> Heater \<Rightarrow> real \<Rightarrow> real \<Rightarrow> ControlFOPDT" where
  "note_temperature c h read_time temp =
     (let c1 = (if last_pwm c \<noteq> next_pwm c \<and> read_time > next_pwm_time c
                then apply_next_pwm c else c);
          model_temp_now = calc_model_temp c1 read_time;
          c2 = c1\<lparr>last_model_temp := model_temp_now\<rparr>;
          time_diff = read_time - last_model_time c2;
          c3 = c2\<lparr>last_model_time := read_time\<rparr>;
          smooth_factor = 1 - exp (- time_diff * inv_delay c3);
          c4 = c3\<lparr>model_smooth_temp :=
                    model_smooth_temp c3 + (model_temp_now - model_smooth_temp c3) * smooth_factor\<rparr>;
          ambient = temp - model_smooth_temp c4;
          ambient_factor = 1 - exp (- time_diff * INV_AMBIENT_SMOOTH);
          c5 = c4\<lparr>smooth_ambient :=
                    smooth_ambient c4 + (ambient - smooth_ambient c4) * ambient_factor\<rparr>
      in if smooth_ambient c5 < MIN_AMBIENT \<and> \<not> did_fault c5 \<and> temp \<le> target_temp h
         then c5\<lparr>did_fault := True\<rparr>
         else c5)"

definition ControlFOPDT_set_pwm ::
  "ControlFOPDT \<Rightarrow> Heater \<Rightarrow> real \<Rightarrow> real \<Rightarrow> ControlFOPDT \<times> Heater" where
  "ControlFOPDT_set_pwm c h read_time value0 =
     (let ((pwm_time, value), h') = Heater_set_pwm h read_time value0;
          c1 = (if last_pwm c \<noteq> next_pwm c then apply_next_pwm c else c);
          c2 = c1\<lparr>next_pwm_time := pwm_time\<rparr>
      in (c2\<lparr>next_pwm := value\<rparr>, h'))"

text \<open>
  \<open>note_first_temp\<close>; \<open>curtime\<close> is what \<open>reactor.monotonic()\<close> returns. The division
  \<open>5. / self.inv_time_constant\<close> raises when the divisor is 0.
\<close>

definition note_first_temp :: "ControlFOPDT \<Rightarrow> real \<Rightarrow> error + ControlFOPDT" where
  "note_first_temp c curtime =
     (let c1 = c\<lparr>first_set_temp := False\<rparr>
      in if inv_time_constant c1 = 0 then Inl ZeroDivisionError
         else if curtime \<ge> start_time c1 + 5 / inv_time_constant c1 then Inr c1
         else
           let delta = smooth_ambient c1 - AMBIENT_TEMP
           in if delta \<le> 0 then Inr c1
              else
                let c2 = c1\<lparr>model_temp := model_temp c1 + delta\<rparr>;
                    c3 = c2\<lparr>model_smooth_temp := model_smooth_temp c2 + delta\<rparr>;
                    c4 = c3\<lparr>smooth_ambient := smooth_ambient c3 - delta\<rparr>
                in Inr (c4\<lparr>last_pwm_time := last_model_time c4\<rparr>))"

definition ControlFOPDT_temperature_callback ::
  "ControlFOPDT \<Rightarrow> Heater \<Rightarrow> real \<Rightarrow> real \<Rightarrow> real \<Rightarrow> error + (ControlFOPDT \<times> Heater)" where
  "ControlFOPDT_temperature_callback c h curtime read_time temp =
     (case (if target_temp h \<noteq> 0 \<and> first_set_temp c then note_first_temp c curtime else Inr c) of
        Inl e \<Rightarrow> Inl e
      | Inr c0 \<Rightarrow>
          let c1 = note_temperature c0 h read_time temp;
              time_diff = read_time - prev_temp_time c1;
              temp_diff = temp - prev_temp c1;
              c2 = c1\<lparr>prev_temp := temp\<rparr>;
              smooth_factor = 1 - exp (- time_diff * INV_TEMP_SMOOTH);
              c3 = c2\<lparr>temp_slope := temp_slope c2 + (temp_diff - temp_slope c2) * smooth_factor\<rparr>;
              target = target_temp h - smooth_ambient c3;
              bias = target * inv_gain c3;
              temp_err = target - last_model_temp c3;
              bounded_co = max 0 (min (max_power h) (bias + Kp c3 * temp_err))
          in Inr (ControlFOPDT_set_pwm c3 h read_time bounded_co))"

section \<open>Calibration bump test (klippy/extras/heater_calibrate.py)\<close>

record ControlBumpTest =
  state :: int
  done_temperature :: real
  last_pwm :: real
  pwm_samples :: "(real \<times> real) list"
  temp_samples :: "(real \<times> real) list"
  ambient_temp :: real

definition ControlBumpTest_init :: ControlBumpTest where
  "ControlBumpTest_init =
     \<lparr> state = 0, done_temperature = 0, last_pwm = 0, pwm_samples = [], temp_samples = [],
       ambient_temp = 0 \<rparr>"

definition ControlBumpTest_set_pwm ::
  "ControlBumpTest \<Rightarrow> Heater \<Rightarrow> real \<Rightarrow> real \<Rightarrow> ControlBumpTest \<times> Heater" where
  "ControlBumpTest_set_pwm c h read_time value0 =
     (let c2 = (if value0 \<noteq> last_pwm c
                then let c1 = c\<lparr>pwm_samples := pwm_samples c @ [(read_time + pwm_delay h, value0)]\<rparr>
                     in c1\<lparr>last_pwm := value0\<rparr>
                else c)
      in (c2, snd (Heater_set_pwm h read_time value0)))"

text \<open>
  \<open>ControlBumpTest.temperature_callback\<close>. The sample is appended first, so
  \<open>self.temp_samples[0]\<close> exists when state 1 reads it (\<^const>\<open>hd\<close> of a non-empty list).
\<close>

definition ControlBumpTest_temperature_callback ::
  "ControlBumpTest \<Rightarrow> Heater \<Rightarrow> real \<Rightarrow> real \<Rightarrow> ControlBumpTest \<times> Heater" where
  "ControlBumpTest_temperature_callback c0 h read_time temp =
     (let c = c0\<lparr>temp_samples := temp_samples c0 @ [(read_time, temp)]\<rparr>
      in if state c = 0 then
           let (c1, h1) = ControlBumpTest_set_pwm c h read_time 0
           in if length (temp_samples c1) \<ge> 20
              then (c1\<lparr>state := state c1 + 1\<rparr>, h1)
              else (c1, h1)
         else if state c = 1 then
           if temp < target_temp h
           then ControlBumpTest_set_pwm c h read_time (max_power h)
           else
             let (c1, h1) = ControlBumpTest_set_pwm c h read_time 0;
                 start_temp = snd (hd (temp_samples c1));
                 c2 = c1\<lparr>done_temperature :=
                           start_temp + (target_temp h1 - start_temp) * 0.35\<rparr>;
                 h2 = h1\<lparr>target_temp := done_temperature c2\<rparr>
             in (c2\<lparr>state := state c2 + 1\<rparr>, h2)
         else if state c = 2 then
           let (c1, h1) = ControlBumpTest_set_pwm c h read_time 0
           in if temp \<le> done_temperature c1
              then (c1\<lparr>state := state c1 + 1\<rparr>, h1)
              else (c1, h1)
         else (c, h))"

definition ControlBumpTest_check_busy :: "ControlBumpTest \<Rightarrow> real \<Rightarrow> bool" where
  "ControlBumpTest_check_busy c eventtime = (if state c < 3 then True else False)"

text \<open>
  The states a session shows over a sequence of \<open>(read_time, temp)\<close> callbacks: the state
  before the first callback and the state after each one.
\<close>

fun bump_states :: "ControlBumpTest \<Rightarrow> Heater \<Rightarrow> (real \<times> real) list \<Rightarrow> int list" where
  "bump_states c h [] = [state c]"
| "bump_states c h ((read_time, temp) # rest) =
     state c # (case ControlBumpTest_temperature_callback c h read_time temp of
                  (c', h') \<Rightarrow> bump_states c' h' rest)"

text \<open>The session and heater a sequence of callbacks ends in.\<close>

fun bump_run ::
  "ControlBumpTest \<Rightarrow> Heater \<Rightarrow> (real \<times> real) list \<Rightarrow> ControlBumpTest \<times> Heater" where
  "bump_run c h [] = (c, h)"
| "bump_run c h ((read_time, temp) # rest) =
     (case ControlBumpTest_temperature_callback c h read_time temp of
        (c', h') \<Rightarrow> bump_run c' h' rest)"

subsection \<open>First order plus delay time calculation\<close>

text \<open>
  One round of the loop of \<open>model_smoothed_fopdt\<close>: from \<open>(smooth_temp, last_time)\<close> and the
  sample's time to the new pair.
\<close>

definition model_step ::
  "real \<Rightarrow> real \<Rightarrow> real \<Rightarrow> real \<Rightarrow> real \<Rightarrow> real \<Rightarrow> real \<times> real \<Rightarrow> real \<Rightarrow> real \<times> real" where
  "model_step heater_on_time heater_off_time gain' inv_time_constant' inv_delay' peak_temp
       acc time =
     (let (smooth_temp, last_time) = acc;
          rel_temp =
            (if time > heater_off_time
             then peak_temp * exp (- (time - heater_off_time) * inv_time_constant')
             else if time > heater_on_time
             then gain' * (1 - exp (- (time - heater_on_time) * inv_time_constant'))
             else 0);
          time_diff = time - last_time;
          smooth_factor = 1 - exp (- time_diff * inv_delay')
      in (smooth_temp + (rel_temp - smooth_temp) * smooth_factor, time))"

fun model_loop ::
  "(real \<times> real \<Rightarrow> real \<Rightarrow> real \<times> real) \<Rightarrow> real \<Rightarrow> real \<times> real \<Rightarrow> (real \<times> real) list \<Rightarrow> real list" where
  "model_loop step ambient acc [] = []"
| "model_loop step ambient acc ((time, measured_temp) # rest) =
     (let acc' = step acc time
      in (ambient + fst acc') # model_loop step ambient acc' rest)"

definition model_smoothed_fopdt ::
  "ControlBumpTest \<Rightarrow> real \<Rightarrow> real \<Rightarrow> real \<Rightarrow> error + real list" where
  "model_smoothed_fopdt c gain0 time_constant delay =
     (case pwm_samples c of
        (heater_on_time, on_value) # (heater_off_time, off_value) # others \<Rightarrow>
          if time_constant = 0 \<or> delay = 0 then Inl ZeroDivisionError
          else
            let gain' = gain0 * on_value;
                inv_time_constant' = 1 / time_constant;
                inv_delay' = 1 / delay;
                heat_time = heater_off_time - heater_on_time;
                peak_temp = gain' * (1 - exp (- heat_time * inv_time_constant'))
            in Inr (model_loop
                      (model_step heater_on_time heater_off_time gain' inv_time_constant'
                         inv_delay' peak_temp)
                      (ambient_temp c) (0, 0) (temp_samples c))
      | _ \<Rightarrow> Inl IndexError)"

text \<open>
  \<open>least_squares_error(params)\<close>; the dictionary is a map from the parameter's name. The
  \<open>reactor.pause\<close> at its end does not change the value returned.
\<close>

definition least_squares_error :: "ControlBumpTest \<Rightarrow> (string \<rightharpoonup> real) \<Rightarrow> error + real" where
  "least_squares_error c params =
     (case (params ''gain'', params ''time_constant'', params ''delay'') of
        (Some gain', Some time_constant, Some delay) \<Rightarrow>
          if gain' \<le> 0 \<or> time_constant \<le> 0 \<or> delay \<le> 0 then Inr (9.9 * 10 ^ 99)
          else (case model_smoothed_fopdt c gain' time_constant delay of
                  Inl e \<Rightarrow> Inl e
                | Inr model \<Rightarrow>
                    Inr (foldl (\<lambda>err ((time, measured_temp), model_temp).
                                  err + (measured_temp - model_temp)\<^sup>2)
                           0 (zip (temp_samples c) model)))
      | _ \<Rightarrow> Inl KeyError)"

text \<open>
  The order of Python tuples and \<open>max\<close> of a non-empty list of pairs (the first of the
  greatest elements).
\<close>

definition tuple_less :: "real \<times> real \<Rightarrow> real \<times> real \<Rightarrow> bool" where
  "tuple_less a b = (fst a < fst b \<or> (fst a = fst b \<and> snd a < snd b))"

definition max_tuple :: "(real \<times> real) list \<Rightarrow> real \<times> real" where
  "max_tuple xs = foldl (\<lambda>m x. if tuple_less m x then x else m) (hd xs) (tl xs)"

text \<open>
  \<open>mathutil.coordinate_descent(adj_params, params, error_func)\<close> is not part of these
  sources: it is a parameter of \<open>calc_fopdt\<close>.
\<close>

type_synonym optimizer =
  "string list \<Rightarrow> (string \<rightharpoonup> real) \<Rightarrow> ((string \<rightharpoonup> real) \<Rightarrow> error + real) \<Rightarrow> error + (string \<rightharpoonup> real)"

definition pre_heat_of :: "ControlBumpTest \<Rightarrow> real \<Rightarrow> real list" where
  "pre_heat_of c heater_on_time =
     map snd (filter (\<lambda>(time, temp). time \<le> heater_on_time) (temp_samples c))"

definition initial_params :: "ControlBumpTest \<Rightarrow> (string \<rightharpoonup> real)" where
  "initial_params c =
     (let (maxtemp, maxtemptime) = max_tuple (map (\<lambda>(time, temp). (temp, time)) (temp_samples c))
      in [''gain'' \<mapsto> maxtemp * 2,
          ''time_constant'' \<mapsto> fst (last (temp_samples c)) - maxtemptime,
          ''delay'' \<mapsto> 10])"

definition calc_fopdt ::
  "optimizer \<Rightarrow> ControlBumpTest \<Rightarrow> error + ((real \<times> real \<times> real) \<times> ControlBumpTest)" where
  "calc_fopdt coordinate_descent c =
     (case pwm_samples c of
        [] \<Rightarrow> Inl IndexError
      | (heater_on_time, max_power') # others \<Rightarrow>
          let pre_heat = pre_heat_of c heater_on_time
          in if length pre_heat = 0 then Inl ZeroDivisionError
             else
               let c1 = c\<lparr>ambient_temp := sum_list pre_heat / real (length pre_heat)\<rparr>;
                   params = initial_params c1
               in case coordinate_descent [''gain'', ''time_constant'', ''delay''] params
                         (least_squares_error c1) of
                    Inl e \<Rightarrow> Inl e
                  | Inr new_params \<Rightarrow>
                      (case (new_params ''gain'', new_params ''time_constant'',
                             new_params ''delay'') of
                         (Some gain', Some time_constant, Some delay) \<Rightarrow>
                           Inr ((gain', time_constant, delay), c1)
                       | _ \<Rightarrow> Inl KeyError))"

section \<open>The heater with its active control object\<close>

datatype control =
  BangBang ControlBangBang | PID ControlPID | FOPDT ControlFOPDT | BumpTest ControlBumpTest

text \<open>
  The dynamic dispatch of \<open>self.control.temperature_callback(read_time, temp)\<close>;
  \<open>curtime\<close> is the reactor's clock, read by the FOPDT control only.
\<close>

definition control_temperature_callback ::
  "control \<Rightarrow> Heater \<Rightarrow> real \<Rightarrow> real \<Rightarrow> real \<Rightarrow> error + (control \<times> Heater)" where
  "control_temperature_callback ctl h curtime read_time temp =
     (case ctl of
        BangBang c \<Rightarrow>
          (case ControlBangBang_temperature_callback c h read_time temp of
             (c', h') \<Rightarrow> Inr (BangBang c', h'))
      | PID c \<Rightarrow>
          (case ControlPID_temperature_callback c h read_time temp of
             Inl e \<Rightarrow> Inl e
           | Inr (c', h') \<Rightarrow> Inr (PID c', h'))
      | FOPDT c \<Rightarrow>
          (case ControlFOPDT_temperature_callback c h curtime read_time temp of
             Inl e \<Rightarrow> Inl e
           | Inr (c', h') \<Rightarrow> Inr (FOPDT c', h'))
      | BumpTest c \<Rightarrow>
          (case ControlBumpTest_temperature_callback c h read_time temp of
             (c', h') \<Rightarrow> Inr (BumpTest c', h')))"

definition Heater_temperature_callback ::
  "Heater \<Rightarrow> control \<Rightarrow> real \<Rightarrow> real \<Rightarrow> real \<Rightarrow> error + (control \<times> Heater)" where
  "Heater_temperature_callback h ctl curtime read_time temp =
     control_temperature_callback ctl (Heater_note_sample h read_time temp) curtime read_time temp"

text \<open>
  What reaches a heater over time: a sample from the sensor (with the reactor's clock at
  that moment) or a \<open>set_temp\<close> from the command path. A run stops at the first sample
  whose callback raises, with the control and heater as they were before that sample; a
  \<open>set_temp\<close> that raises leaves the heater as it was and the run goes on.
\<close>

datatype event = Sample real real real | SetTemp real real

fun run_events :: "control \<Rightarrow> Heater \<Rightarrow> event list \<Rightarrow> error option \<times> control \<times> Heater" where
  "run_events ctl h [] = (None, ctl, h)"
| "run_events ctl h (Sample curtime read_time temp # es) =
     (case Heater_temperature_callback h ctl curtime read_time temp of
        Inl e \<Rightarrow> (Some e, ctl, h)
      | Inr (ctl', h') \<Rightarrow> run_events ctl' h' es)"
| "run_events ctl h (SetTemp print_time degrees # es) =
     run_events ctl (snd (Heater_set_temp h print_time degrees)) es"

section \<open>Example configurations\<close>

text \<open>
  Concrete heaters, control objects and sample streams on which the theorems below are
  evaluated.
\<close>

definition example_heater :: Heater where
  "example_heater = Heater_init 0 300 1 170 1 False"

definition example_bangbang :: ControlBangBang where
  "example_bangbang = ControlBangBang_init 2"

definition example_pid :: ControlPID where
  "example_pid =
     \<lparr> ControlPID.Kp = 0.1, Ki = 0.01, Kd = 0.5, min_deriv_time = 2, temp_integ_max = 100,
       ControlPID.prev_temp = 25, ControlPID.prev_temp_time = 0, prev_temp_deriv = 0, prev_temp_integ = 0 \<rparr>"

definition example_fopdt :: ControlFOPDT where
  "example_fopdt =
     \<lparr> gain = 200, inv_gain = 1 / 200, inv_time_constant = 1 / 60, inv_delay = 1 / 5,
       first_set_temp = True, start_time = 0, last_pwm_time = 0, next_pwm_time = 0,
       last_model_time = 0, ControlFOPDT.last_pwm = 0, next_pwm = 0, model_temp = 0, last_model_temp = 0,
       model_smooth_temp = 0, smooth_ambient = 25, did_fault = False, Kp = 0.21,
       prev_temp = 25, prev_temp_time = 0, temp_slope = 0 \<rparr>"

text \<open>
  The example heater with target 200 after \<open>set_pwm(1, 0.5)\<close>; then switched off by
  \<open>set_pwm(2, 0)\<close>; or turned down by \<open>set_pwm(2, 0.03)\<close> and its target set to 0.
\<close>

definition example_heater_on :: Heater where
  "example_heater_on = snd (Heater_set_pwm (snd (Heater_set_temp example_heater 0 200)) 1 0.5)"

definition example_heater_off :: Heater where
  "example_heater_off = snd (Heater_set_pwm example_heater_on 2 0)"

definition example_heater_low :: Heater where
  "example_heater_low =
     snd (Heater_set_temp (snd (Heater_set_pwm example_heater_on 2 0.03)) 3 0)"

text \<open>
  The example heater with target 200, and a PID control near the target.
\<close>

definition example_heater_200 :: Heater where
  "example_heater_200 = snd (Heater_set_temp example_heater 0 200)"

definition example_pid_warm :: ControlPID where
  "example_pid_warm =
     example_pid\<lparr>ControlPID.prev_temp := 199, ControlPID.prev_temp_time := 10,
                 prev_temp_integ := 5\<rparr>"

text \<open>
  A bump test on the example heater with target 100 and a report interval of 1: twenty
  samples in state 0, three in state 1 (the heater is switched on by the sample at time
  20, so the first PWM edge is logged at time 21), two in state 2.
\<close>

definition example_heater_100 :: Heater where
  "example_heater_100 = snd (Heater_set_temp example_heater 0 100)"

definition example_samples :: "(real \<times> real) list" where
  "example_samples =
     [(0, 20), (1, 30), (2, 30), (3, 30), (4, 30), (5, 30), (6, 30), (7, 30), (8, 30), (9, 30),
      (10, 30), (11, 30), (12, 30), (13, 30), (14, 30), (15, 30), (16, 30), (17, 30), (18, 30),
      (19, 30), (20, 30), (21, 40), (22, 100), (23, 60), (24, 48)]"

text \<open>An optimizer that returns its initial guess, to run \<open>calc_fopdt\<close> on the example.\<close>

definition keep_initial :: optimizer where
  "keep_initial adj_params params error_func = Inr params"

section \<open>Theorems\<close>

subsection \<open>Every control hands \<open>Heater.set_pwm\<close> a clamped value\<close>

lemma set_pwm_calls_Heater_set_pwm:
  "set_pwm_calls (snd (Heater_set_pwm h read_time v)) = set_pwm_calls h @ [(read_time, v)]"
  by (simp add: Heater_set_pwm_def Let_def)

lemma max_power_Heater_set_pwm:
  "max_power (snd (Heater_set_pwm h read_time v)) = max_power h"
  by (simp add: Heater_set_pwm_def Let_def)

lemma BangBang_callback_heater:
  "snd (ControlBangBang_temperature_callback c h read_time temp)
         = snd (Heater_set_pwm h read_time 0)
   \<or> snd (ControlBangBang_temperature_callback c h read_time temp)
         = snd (Heater_set_pwm h read_time (max_power h))"
  by (simp add: ControlBangBang_temperature_callback_def Let_def)

lemma ControlPID_temperature_callback_eq:
  "ControlPID_temperature_callback c h read_time temp =
     (if PID_zero_div c read_time then Inl ZeroDivisionError
      else Inr (if PID_co c h read_time temp = max 0 (min (max_power h) (PID_co c h read_time temp))
                then c\<lparr>ControlPID.prev_temp := temp, ControlPID.prev_temp_time := read_time,
                       prev_temp_deriv := PID_temp_deriv c read_time temp,
                       prev_temp_integ := PID_temp_integ c h read_time temp\<rparr>
                else c\<lparr>ControlPID.prev_temp := temp, ControlPID.prev_temp_time := read_time,
                       prev_temp_deriv := PID_temp_deriv c read_time temp\<rparr>,
                snd (Heater_set_pwm h read_time
                       (max 0 (min (max_power h) (PID_co c h read_time temp))))))"
  unfolding ControlPID_temperature_callback_def PID_zero_div_def PID_co_def PID_temp_integ_def
    PID_temp_deriv_def Let_def
  by (rule refl)


lemma PID_callback_shape:
  "\<exists>C x. ControlPID_temperature_callback c h read_time temp =
     (if (if read_time - ControlPID.prev_temp_time c \<ge> min_deriv_time c
          then read_time - ControlPID.prev_temp_time c = 0 else min_deriv_time c = 0)
      then Inl ZeroDivisionError
      else Inr (C, snd (Heater_set_pwm h read_time (max 0 (min (max_power h) x)))))"
  unfolding ControlPID_temperature_callback_def Let_def
  by (intro exI) (rule refl)

lemma PID_callback_heater:
  assumes "ControlPID_temperature_callback c h read_time temp = Inr (c', h')"
  shows "\<exists>x. h' = snd (Heater_set_pwm h read_time (max 0 (min (max_power h) x)))"
proof -
  obtain C x where e: "ControlPID_temperature_callback c h read_time temp =
     (if (if read_time - ControlPID.prev_temp_time c \<ge> min_deriv_time c
          then read_time - ControlPID.prev_temp_time c = 0 else min_deriv_time c = 0)
      then Inl ZeroDivisionError
      else Inr (C, snd (Heater_set_pwm h read_time (max 0 (min (max_power h) x)))))"
    using PID_callback_shape by blast
  have "h' = snd (Heater_set_pwm h read_time (max 0 (min (max_power h) x)))"
    using assms unfolding e by (simp split: if_splits)
  then show ?thesis by blast
qed

lemma FOPDT_set_pwm_heater:
  "snd (ControlFOPDT_set_pwm c h read_time v) = snd (Heater_set_pwm h read_time v)"
  by (simp add: ControlFOPDT_set_pwm_def Let_def split: prod.splits)

lemma FOPDT_callback_shape:
  "\<exists>C x. ControlFOPDT_temperature_callback c h curtime read_time temp =
     (case (if target_temp h \<noteq> 0 \<and> first_set_temp c then note_first_temp c curtime else Inr c) of
        Inl e \<Rightarrow> Inl e
      | Inr c0 \<Rightarrow> Inr (ControlFOPDT_set_pwm (C c0) h read_time (max 0 (min (max_power h) (x c0)))))"
  unfolding ControlFOPDT_temperature_callback_def Let_def
  by (intro exI) (rule refl)

lemma FOPDT_callback_heater:
  assumes "ControlFOPDT_temperature_callback c h curtime read_time temp = Inr (c', h')"
  shows "\<exists>x. h' = snd (Heater_set_pwm h read_time (max 0 (min (max_power h) x)))"
proof -
  obtain C x where e: "ControlFOPDT_temperature_callback c h curtime read_time temp =
     (case (if target_temp h \<noteq> 0 \<and> first_set_temp c then note_first_temp c curtime else Inr c) of
        Inl e \<Rightarrow> Inl e
      | Inr c0 \<Rightarrow> Inr (ControlFOPDT_set_pwm (C c0) h read_time (max 0 (min (max_power h) (x c0)))))"
    using FOPDT_callback_shape by blast
  obtain c0 where "ControlFOPDT_set_pwm (C c0) h read_time (max 0 (min (max_power h) (x c0))) = (c', h')"
    using assms unfolding e by (auto split: sum.splits)
  then have "h' = snd (ControlFOPDT_set_pwm (C c0) h read_time (max 0 (min (max_power h) (x c0))))"
    by simp
  then show ?thesis unfolding FOPDT_set_pwm_heater by blast
qed

lemma BumpTest_callback_heater:
  "snd (ControlBumpTest_temperature_callback c h read_time temp) =
     (if state c = 0 then snd (Heater_set_pwm h read_time 0)
      else if state c = 1 then
        (if temp < target_temp h then snd (Heater_set_pwm h read_time (max_power h))
         else (snd (Heater_set_pwm h read_time 0))
               \<lparr>target_temp := done_temperature (fst (ControlBumpTest_temperature_callback c h read_time temp))\<rparr>)
      else if state c = 2 then snd (Heater_set_pwm h read_time 0)
      else h)"
  by (simp add: ControlBumpTest_temperature_callback_def Let_def ControlBumpTest_set_pwm_def)


lemma clamp_bounds:
  "0 \<le> max 0 (min m (x::real))" "0 \<le> m \<Longrightarrow> max 0 (min m x) \<le> m"
  by simp_all

lemma control_step_calls:
  assumes "control_temperature_callback ctl h curtime read_time temp = Inr (ctl', h')"
    and "0 \<le> max_power h"
  shows "max_power h' = max_power h \<and>
    (\<exists>new. set_pwm_calls h' = set_pwm_calls h @ new
        \<and> (\<forall>p\<in>set new. 0 \<le> snd p \<and> snd p \<le> max_power h))"
proof (cases ctl)
  case (BangBang c)
  with assms(1) have "h' = snd (ControlBangBang_temperature_callback c h read_time temp)"
    by (auto simp: control_temperature_callback_def split: prod.splits)
  with BangBang_callback_heater[of c h read_time temp]
  have "h' = snd (Heater_set_pwm h read_time 0) \<or> h' = snd (Heater_set_pwm h read_time (max_power h))"
    by simp
  then show ?thesis
    using assms(2) by (auto simp: set_pwm_calls_Heater_set_pwm max_power_Heater_set_pwm)
next
  case (PID c)
  with assms(1) obtain c' where "ControlPID_temperature_callback c h read_time temp = Inr (c', h')"
    by (auto simp: control_temperature_callback_def split: prod.splits sum.splits)
  from PID_callback_heater[OF this] obtain x where
    "h' = snd (Heater_set_pwm h read_time (max 0 (min (max_power h) x)))" by blast
  then show ?thesis
    using clamp_bounds[of "max_power h" x] assms(2)
    by (simp add: set_pwm_calls_Heater_set_pwm max_power_Heater_set_pwm)
next
  case (FOPDT c)
  with assms(1) obtain c' where
    "ControlFOPDT_temperature_callback c h curtime read_time temp = Inr (c', h')"
    by (auto simp: control_temperature_callback_def split: prod.splits sum.splits)
  from FOPDT_callback_heater[OF this] obtain x where
    "h' = snd (Heater_set_pwm h read_time (max 0 (min (max_power h) x)))" by blast
  then show ?thesis
    using clamp_bounds[of "max_power h" x] assms(2)
    by (simp add: set_pwm_calls_Heater_set_pwm max_power_Heater_set_pwm)
next
  case (BumpTest c)
  with assms(1) have "h' = snd (ControlBumpTest_temperature_callback c h read_time temp)"
    by (auto simp: control_temperature_callback_def split: prod.splits)
  then show ?thesis
    unfolding BumpTest_callback_heater using assms(2)
    by (simp add: set_pwm_calls_Heater_set_pwm max_power_Heater_set_pwm)
qed

lemma Heater_note_sample_frame:
  "max_power (Heater_note_sample h read_time temp) = max_power h"
  "set_pwm_calls (Heater_note_sample h read_time temp) = set_pwm_calls h"
  by (simp_all add: Heater_note_sample_def Let_def)

lemma Heater_set_temp_frame:
  "max_power (snd (Heater_set_temp h print_time degrees)) = max_power h"
  "set_pwm_calls (snd (Heater_set_temp h print_time degrees)) = set_pwm_calls h"
  by (simp_all add: Heater_set_temp_def)

lemma run_events_calls:
  "0 \<le> max_power h \<Longrightarrow> run_events ctl h es = (r, ctl', h') \<Longrightarrow>
   max_power h' = max_power h \<and>
    (\<exists>new. set_pwm_calls h' = set_pwm_calls h @ new
        \<and> (\<forall>p\<in>set new. 0 \<le> snd p \<and> snd p \<le> max_power h))"
proof (induction ctl h es rule: run_events.induct)
  case (1 ctl h)
  then show ?case by simp
next
  case (2 ctl h curtime read_time temp es)
  show ?case
  proof (cases "Heater_temperature_callback h ctl curtime read_time temp")
    case (Inl e)
    with 2 show ?thesis by simp
  next
    case (Inr p)
    obtain ctl1 h1 where p: "p = (ctl1, h1)" by (cases p)
    from Inr p have step: "control_temperature_callback ctl (Heater_note_sample h read_time temp)
        curtime read_time temp = Inr (ctl1, h1)"
      by (simp add: Heater_temperature_callback_def)
    have mp: "0 \<le> max_power (Heater_note_sample h read_time temp)"
      using "2.prems"(1) by (simp add: Heater_note_sample_frame)
    from control_step_calls[OF step mp]
    obtain new1 where m1: "max_power h1 = max_power h"
      and n1: "set_pwm_calls h1 = set_pwm_calls h @ new1"
      and r1: "\<forall>p\<in>set new1. 0 \<le> snd p \<and> snd p \<le> max_power h"
      unfolding Heater_note_sample_frame by blast
    from "2.prems" Inr p have run: "run_events ctl1 h1 es = (r, ctl', h')" by simp
    have mp1: "0 \<le> max_power h1" using m1 "2.prems"(1) by simp
    from "2.IH"[OF Inr p[symmetric] mp1 run]
    obtain new2 where m2: "max_power h' = max_power h1"
      and n2: "set_pwm_calls h' = set_pwm_calls h1 @ new2"
      and r2: "\<forall>p\<in>set new2. 0 \<le> snd p \<and> snd p \<le> max_power h1"
      by blast
    have "set_pwm_calls h' = set_pwm_calls h @ (new1 @ new2)"
      using n1 n2 by simp
    moreover have "\<forall>p\<in>set (new1 @ new2). 0 \<le> snd p \<and> snd p \<le> max_power h"
      using r1 r2 m1 by auto
    ultimately show ?thesis using m1 m2 by metis
  qed
next
  case (3 ctl h print_time degrees es)
  have mp: "0 \<le> max_power (snd (Heater_set_temp h print_time degrees))"
    using "3.prems"(1) by (simp add: Heater_set_temp_frame)
  from "3.prems"(2) have run:
    "run_events ctl (snd (Heater_set_temp h print_time degrees)) es = (r, ctl', h')" by simp
  from "3.IH"[OF mp run] show ?case
    unfolding Heater_set_temp_frame .
qed

text \<open>
  C1: for every control variant (bang-bang, PID, FOPDT, and the bump test as well) and
  every sequence of samples and \<open>set_temp\<close> commands, each value a control passes to
  \<open>Heater.set_pwm\<close> lies between 0 and \<open>max_power\<close>: the calls recorded during the run
  extend those recorded before it, and every new one is within the bounds. The heater's
  \<open>max_power\<close> is not negative (the configuration has it in \<open>(0, 1]\<close>).
\<close>

theorem control_power_bounded:
  assumes "0 \<le> max_power h"
  shows "max_power (snd (snd (run_events ctl h es))) = max_power h
    \<and> take (length (set_pwm_calls h)) (set_pwm_calls (snd (snd (run_events ctl h es))))
        = set_pwm_calls h
    \<and> (\<forall>p \<in> set (drop (length (set_pwm_calls h))
                       (set_pwm_calls (snd (snd (run_events ctl h es))))).
          0 \<le> snd p \<and> snd p \<le> max_power h)"
proof -
  obtain r ctl' h' where run: "run_events ctl h es = (r, ctl', h')"
    by (cases "run_events ctl h es") auto
  from run_events_calls[OF assms run] obtain new where
    "max_power h' = max_power h" "set_pwm_calls h' = set_pwm_calls h @ new"
    "\<forall>p\<in>set new. 0 \<le> snd p \<and> snd p \<le> max_power h"
    by blast
  then show ?thesis unfolding run by simp
qed

lemma example_heater_max_power: "0 \<le> max_power example_heater"
  by (simp add: example_heater_def Heater_init_def)

lemma example_bangbang_calls:
  "set_pwm_calls (snd (snd (run_events (BangBang example_bangbang) example_heater
         [SetTemp 0 200, Sample 0 1 25]))) = [(1, 1)]"
  by (simp add: example_heater_def example_bangbang_def
      Heater_init_def ControlBangBang_init_def Heater_set_temp_def Heater_temperature_callback_def
      Heater_note_sample_def control_temperature_callback_def
      ControlBangBang_temperature_callback_def
      Heater_set_pwm_def Let_def MAX_HEAT_TIME_def)

lemma example_pid_calls:
  "set_pwm_calls (snd (snd (run_events (PID example_pid) example_heater
         [SetTemp 0 200, Sample 0 1 25]))) = [(1, 1)]"
  by (simp add: example_heater_def example_pid_def
      Heater_init_def Heater_set_temp_def Heater_temperature_callback_def
      Heater_note_sample_def control_temperature_callback_def
      ControlPID_temperature_callback_eq PID_zero_div_def PID_co_def PID_temp_integ_def
      PID_temp_deriv_def Heater_set_pwm_def Let_def MAX_HEAT_TIME_def)

lemma example_fopdt_calls:
  "set_pwm_calls (snd (snd (run_events (FOPDT example_fopdt) example_heater
         [SetTemp 0 200, Sample 0 0 25]))) = [(0, 1)]"
  by (simp add: example_heater_def example_fopdt_def
      Heater_init_def Heater_set_temp_def Heater_temperature_callback_def
      Heater_note_sample_def control_temperature_callback_def
      ControlFOPDT_temperature_callback_def note_first_temp_def note_temperature_def
      calc_model_temp_def apply_next_pwm_def ControlFOPDT_set_pwm_def
      Heater_set_pwm_def Let_def MAX_HEAT_TIME_def AMBIENT_TEMP_def MIN_AMBIENT_def
      INV_AMBIENT_SMOOTH_def INV_TEMP_SMOOTH_def)

theorem control_power_bounded_witness:
  "0 \<le> max_power example_heater
   \<and> set_pwm_calls (snd (snd (run_events (PID example_pid) example_heater
         [SetTemp 0 200, Sample 0 1 25]))) = [(1, 1)]
   \<and> set_pwm_calls (snd (snd (run_events (BangBang example_bangbang) example_heater
         [SetTemp 0 200, Sample 0 1 25]))) = [(1, 1)]
   \<and> set_pwm_calls (snd (snd (run_events (FOPDT example_fopdt) example_heater
         [SetTemp 0 200, Sample 0 0 25]))) = [(0, 1)]"
  using control_power_bounded [OF example_heater_max_power, of "PID example_pid"
      "[SetTemp 0 200, Sample 0 1 25]"]
    example_heater_max_power
  unfolding example_pid_calls example_bangbang_calls example_fopdt_calls
  by (simp add: example_heater_def Heater_init_def)

subsection \<open>\<open>Heater.set_pwm\<close>\<close>

lemma example_heater_on_eq:
  "example_heater_on = example_heater
     \<lparr>target_temp := 200, Heater.next_pwm_time := 5.75, last_pwm_value := 0.5,
      mcu_pwm := [(2, 0.5)], set_pwm_calls := [(1, 0.5)]\<rparr>"
  by (simp add: example_heater_on_def example_heater_def Heater_init_def Heater_set_temp_def
      Heater_set_pwm_def Let_def MAX_HEAT_TIME_def)

lemma example_heater_off_eq:
  "example_heater_off = example_heater
     \<lparr>target_temp := 200, Heater.next_pwm_time := 6.75, last_pwm_value := 0,
      mcu_pwm := [(2, 0.5), (3, 0)], set_pwm_calls := [(1, 0.5), (2, 0)]\<rparr>"
  by (simp add: example_heater_off_def example_heater_on_eq example_heater_def Heater_init_def
      Heater_set_pwm_def Let_def MAX_HEAT_TIME_def)

lemma example_heater_low_eq:
  "example_heater_low = example_heater
     \<lparr>target_temp := 0, Heater.next_pwm_time := 6.75, last_pwm_value := 0.03,
      mcu_pwm := [(2, 0.5), (3, 0.03)], set_pwm_calls := [(1, 0.5), (2, 0.03)]\<rparr>"
  by (simp add: example_heater_low_def example_heater_on_eq example_heater_def Heater_init_def
      Heater_set_pwm_def Heater_set_temp_def Let_def MAX_HEAT_TIME_def)

text \<open>
  C10: when \<open>Heater.set_pwm\<close> takes its debounce branch it leaves \<open>next_pwm_time\<close> and
  \<open>last_pwm_value\<close> unchanged (the whole heater, but for the history of calls), does not
  call the PWM driver, and returns \<open>(0, last_pwm_value)\<close>; otherwise it returns
  \<open>(read_time + pwm_delay, value)\<close>, \<open>value\<close> being the argument, or 0 when the target is
  not positive.
\<close>

theorem set_pwm_suppressed_frame:
  "Heater_set_pwm h read_time value0 = (ret, h') \<Longrightarrow>
   (if (read_time < Heater.next_pwm_time h \<or> last_pwm_value h = 0)
        \<and> \<bar>(if target_temp h \<le> 0 then 0 else value0) - last_pwm_value h\<bar> < 0.05
    then Heater.next_pwm_time h' = Heater.next_pwm_time h
         \<and> last_pwm_value h' = last_pwm_value h
         \<and> mcu_pwm h' = mcu_pwm h
         \<and> h' = h\<lparr>set_pwm_calls := set_pwm_calls h'\<rparr>
         \<and> ret = (0, last_pwm_value h)
    else ret = (read_time + pwm_delay h, if target_temp h \<le> 0 then 0 else value0))"
  by (auto simp: Heater_set_pwm_def Let_def split: if_splits)

theorem set_pwm_suppressed_frame_witness:
  "Heater_set_pwm example_heater_on 3 0.53
     = ((0, 0.5), example_heater_on\<lparr>set_pwm_calls := [(1, 0.5), (3, 0.53)]\<rparr>)
   \<and> fst (Heater_set_pwm example_heater_on 3 0.7) = (4, 0.7)"
  using set_pwm_suppressed_frame [of example_heater_on 3 "0.53"
      "fst (Heater_set_pwm example_heater_on 3 0.53)"
      "snd (Heater_set_pwm example_heater_on 3 0.53)"]
    set_pwm_suppressed_frame [of example_heater_on 3 "0.7"
      "fst (Heater_set_pwm example_heater_on 3 0.7)"
      "snd (Heater_set_pwm example_heater_on 3 0.7)"]
  by (simp add: example_heater_on_eq example_heater_def Heater_init_def Heater_set_pwm_def
      Let_def MAX_HEAT_TIME_def)

text \<open>
  C4 as stated fails: after an update has been sent and the heater has then been switched
  off (\<open>last_pwm_value = 0\<close>), a call with power 0 made after \<open>next_pwm_time\<close> is still
  suppressed, although an update has been sent before and \<open>read_time\<close> is not before
  the scheduled time. The test in the code is \<open>not self.last_pwm_value\<close>, not "no update
  has ever been sent" (here: the driver has seen no call).
\<close>

theorem set_pwm_noop_counterexample:
  "\<not> (mcu_pwm (snd (Heater_set_pwm example_heater_off 10 0)) = mcu_pwm example_heater_off
        \<longleftrightarrow> \<bar>0 - last_pwm_value example_heater_off\<bar> < 0.05
            \<and> (10 < Heater.next_pwm_time example_heater_off \<or> mcu_pwm example_heater_off = []))
   \<and> mcu_pwm example_heater_off = [(2, 0.5), (3, 0)]
   \<and> Heater.next_pwm_time example_heater_off = 6.75
   \<and> Heater_set_pwm example_heater_off 10 0
       = ((0, 0), example_heater_off\<lparr>set_pwm_calls := [(1, 0.5), (2, 0), (10, 0)]\<rparr>)"
  by (simp add: example_heater_off_eq example_heater_def Heater_init_def Heater_set_pwm_def
      Let_def MAX_HEAT_TIME_def)

text \<open>
  C4, amended: \<open>Heater.set_pwm\<close> makes no driver call (and returns
  \<open>(0, last_pwm_value)\<close>, leaving \<open>next_pwm_time\<close> and \<open>last_pwm_value\<close> as they were) if and
  only if the new value differs from \<open>last_pwm_value\<close> by less than 0.05 and either
  \<open>read_time < next_pwm_time\<close> or \<open>last_pwm_value\<close> is 0; otherwise it calls the driver
  at \<open>read_time + pwm_delay\<close> and sets \<open>next_pwm_time\<close> to that time plus
  \<open>0.75 * 5.0\<close>.
\<close>

theorem set_pwm_noop_iff:
  "Heater_set_pwm h read_time value0 = (ret, h') \<Longrightarrow>
   (let v = (if target_temp h \<le> 0 then 0 else value0);
        noop = (\<bar>v - last_pwm_value h\<bar> < 0.05
                \<and> (read_time < Heater.next_pwm_time h \<or> last_pwm_value h = 0))
    in (mcu_pwm h' = mcu_pwm h \<longleftrightarrow> noop)
       \<and> (noop \<longrightarrow> ret = (0, last_pwm_value h)
                   \<and> Heater.next_pwm_time h' = Heater.next_pwm_time h
                   \<and> last_pwm_value h' = last_pwm_value h)
       \<and> (\<not> noop \<longrightarrow> mcu_pwm h' = mcu_pwm h @ [(read_time + pwm_delay h, v)]
                   \<and> Heater.next_pwm_time h' = (read_time + pwm_delay h) + 0.75 * 5.0
                   \<and> last_pwm_value h' = v
                   \<and> ret = (read_time + pwm_delay h, v)))"
  by (auto simp: Heater_set_pwm_def Let_def MAX_HEAT_TIME_def split: if_splits)

theorem set_pwm_noop_iff_witness:
  "Heater_set_pwm example_heater_off 10 0.03
       = ((0, 0), example_heater_off\<lparr>set_pwm_calls := [(1, 0.5), (2, 0), (10, 0.03)]\<rparr>)
   \<and> fst (Heater_set_pwm example_heater_on 3 0.53) = (0, 0.5)
   \<and> mcu_pwm (snd (Heater_set_pwm example_heater_on 3 0.53)) = [(2, 0.5)]
   \<and> fst (Heater_set_pwm example_heater_on 6 0.53) = (7, 0.53)
   \<and> mcu_pwm (snd (Heater_set_pwm example_heater_on 6 0.53)) = [(2, 0.5), (7, 0.53)]
   \<and> Heater.next_pwm_time (snd (Heater_set_pwm example_heater_on 6 0.53)) = 10.75"
  using set_pwm_noop_iff [of example_heater_off 10 "0.03"
      "fst (Heater_set_pwm example_heater_off 10 0.03)"
      "snd (Heater_set_pwm example_heater_off 10 0.03)"]
    set_pwm_noop_iff [of example_heater_on 6 "0.53"
      "fst (Heater_set_pwm example_heater_on 6 0.53)"
      "snd (Heater_set_pwm example_heater_on 6 0.53)"]
  by (simp add: example_heater_on_eq example_heater_off_eq example_heater_def Heater_init_def
      Heater_set_pwm_def Let_def MAX_HEAT_TIME_def)

text \<open>
  C2 as stated fails: with a target of 0 and a cached power of 0.03, a call before
  \<open>next_pwm_time\<close> is suppressed by the debounce, so nothing is forwarded and
  \<open>last_pwm_value\<close> stays 0.03.
\<close>

theorem set_pwm_target_off_counterexample:
  "target_temp example_heater_low \<le> 0
   \<and> fst (Heater_set_pwm example_heater_low 4 0.4) = (0, 0.03)
   \<and> last_pwm_value (snd (Heater_set_pwm example_heater_low 4 0.4)) = 0.03
   \<and> last_pwm_value (snd (Heater_set_pwm example_heater_low 4 0.4)) \<noteq> 0"
  by (simp add: example_heater_low_eq example_heater_def Heater_init_def Heater_set_pwm_def
      Let_def MAX_HEAT_TIME_def)

text \<open>
  C2, amended: if \<open>target_temp \<le> 0\<close> at the call, the value argument is replaced by 0:
  either the update is suppressed (possible only when \<open>|last_pwm_value| < 0.05\<close>; then
  nothing is forwarded and \<open>last_pwm_value\<close> keeps its value), or the driver is called
  with power 0 and \<open>last_pwm_value\<close> becomes 0. The result, the driver calls and the
  cached value do not depend on the value argument.
\<close>

theorem set_pwm_target_off:
  assumes "target_temp h \<le> 0" and "Heater_set_pwm h read_time value0 = (ret, h')"
  shows "((mcu_pwm h' = mcu_pwm h \<and> last_pwm_value h' = last_pwm_value h
            \<and> \<bar>last_pwm_value h\<bar> < 0.05 \<and> ret = (0, last_pwm_value h))
          \<or> (mcu_pwm h' = mcu_pwm h @ [(read_time + pwm_delay h, 0)]
            \<and> last_pwm_value h' = 0 \<and> ret = (read_time + pwm_delay h, 0)))
    \<and> fst (Heater_set_pwm h read_time w) = ret
    \<and> mcu_pwm (snd (Heater_set_pwm h read_time w)) = mcu_pwm h'
    \<and> last_pwm_value (snd (Heater_set_pwm h read_time w)) = last_pwm_value h'"
  using assms
  by (auto simp: Heater_set_pwm_def Let_def split: if_splits)

theorem set_pwm_target_off_witness:
  "target_temp example_heater_low \<le> 0
   \<and> fst (Heater_set_pwm example_heater_low 10 0.4) = (11, 0)
   \<and> mcu_pwm (snd (Heater_set_pwm example_heater_low 10 0.4)) = [(2, 0.5), (3, 0.03), (11, 0)]
   \<and> last_pwm_value (snd (Heater_set_pwm example_heater_low 10 0.4)) = 0
   \<and> fst (Heater_set_pwm example_heater_low 10 1) = (11, 0)"
  using set_pwm_target_off [of example_heater_low 10 "0.4"
      "fst (Heater_set_pwm example_heater_low 10 0.4)"
      "snd (Heater_set_pwm example_heater_low 10 0.4)" 1]
  by (simp add: example_heater_low_eq example_heater_def Heater_init_def Heater_set_pwm_def
      Let_def MAX_HEAT_TIME_def)

subsection \<open>PID control\<close>

lemma PID_callback_results:
  assumes "ControlPID_temperature_callback c h read_time temp = Inr (c', h')"
  shows "\<not> PID_zero_div c read_time"
    and "prev_temp_deriv c' = PID_temp_deriv c read_time temp"
    and "prev_temp_integ c' =
          (if PID_co c h read_time temp = max 0 (min (max_power h) (PID_co c h read_time temp))
           then PID_temp_integ c h read_time temp else prev_temp_integ c)"
    and "h' = snd (Heater_set_pwm h read_time
                    (max 0 (min (max_power h) (PID_co c h read_time temp))))"
proof -
  show nz: "\<not> PID_zero_div c read_time"
    using assms unfolding ControlPID_temperature_callback_eq by (auto split: if_splits)
  let ?sat = "PID_co c h read_time temp = max 0 (min (max_power h) (PID_co c h read_time temp))"
  have c': "c' = (if ?sat
                then c\<lparr>ControlPID.prev_temp := temp, ControlPID.prev_temp_time := read_time,
                       prev_temp_deriv := PID_temp_deriv c read_time temp,
                       prev_temp_integ := PID_temp_integ c h read_time temp\<rparr>
                else c\<lparr>ControlPID.prev_temp := temp, ControlPID.prev_temp_time := read_time,
                       prev_temp_deriv := PID_temp_deriv c read_time temp\<rparr>)"
    and h': "h' = snd (Heater_set_pwm h read_time
                    (max 0 (min (max_power h) (PID_co c h read_time temp))))"
    using assms nz unfolding ControlPID_temperature_callback_eq
    by (simp_all only: if_False sum.inject prod.inject)
  show "prev_temp_deriv c' = PID_temp_deriv c read_time temp"
    by (simp add: c')
  show "prev_temp_integ c' = (if ?sat then PID_temp_integ c h read_time temp else prev_temp_integ c)"
    by (simp add: c')
  show "h' = snd (Heater_set_pwm h read_time
                    (max 0 (min (max_power h) (PID_co c h read_time temp))))"
    by (rule h')
qed

lemma example_heater_200_eq: "example_heater_200 = example_heater\<lparr>target_temp := 200\<rparr>"
  by (simp add: example_heater_200_def example_heater_def Heater_init_def Heater_set_temp_def)

lemma example_pid_init:
  "ControlPID_init example_heater 25.5 2.55 127.5 None None = Inr example_pid"
  by (simp add: ControlPID_init_def example_pid_def example_heater_def Heater_init_def
      PID_PARAM_BASE_def AMBIENT_TEMP_def Let_def)

lemma example_pid_saturated:
  "ControlPID_temperature_callback example_pid example_heater_200 1 25
     = Inr (example_pid\<lparr>ControlPID.prev_temp_time := 1\<rparr>,
            snd (Heater_set_pwm example_heater_200 1 1))"
  by (simp add: ControlPID_temperature_callback_eq PID_zero_div_def PID_co_def
      PID_temp_integ_def PID_temp_deriv_def example_pid_def example_heater_200_eq
      example_heater_def Heater_init_def)

lemma example_pid_unsaturated:
  "ControlPID_temperature_callback example_pid_warm example_heater_200 11 199
     = Inr (example_pid_warm\<lparr>ControlPID.prev_temp_time := 11, prev_temp_integ := 6\<rparr>,
            snd (Heater_set_pwm example_heater_200 11 0.16))"
  by (simp add: ControlPID_temperature_callback_eq PID_zero_div_def PID_co_def
      PID_temp_integ_def PID_temp_deriv_def example_pid_warm_def example_pid_def
      example_heater_200_eq example_heater_def Heater_init_def)

lemma example_pid_filtered:
  "ControlPID_temperature_callback example_pid example_heater_200 1 27
     = Inr (example_pid\<lparr>ControlPID.prev_temp := 27, ControlPID.prev_temp_time := 1,
                         prev_temp_deriv := 1\<rparr>,
            snd (Heater_set_pwm example_heater_200 1 1))"
  by (simp add: ControlPID_temperature_callback_eq PID_zero_div_def PID_co_def
      PID_temp_integ_def PID_temp_deriv_def example_pid_def example_heater_200_eq
      example_heater_def Heater_init_def)

lemma example_pid_unfiltered:
  "ControlPID_temperature_callback example_pid example_heater_200 4 27
     = Inr (example_pid\<lparr>ControlPID.prev_temp := 27, ControlPID.prev_temp_time := 4,
                         prev_temp_deriv := 0.5\<rparr>,
            snd (Heater_set_pwm example_heater_200 4 1))"
  by (simp add: ControlPID_temperature_callback_eq PID_zero_div_def PID_co_def
      PID_temp_integ_def PID_temp_deriv_def example_pid_def example_heater_200_eq
      example_heater_def Heater_init_def)

text \<open>
  C5: in \<open>ControlPID.temperature_callback\<close> the integral is clamped by
  \<open>max(0, min(temp_integ_max, .))\<close>, hence lies in \<open>[0, temp_integ_max]\<close> when that bound is
  not negative; \<open>temp_integ_max\<close> is the configured integral maximum divided by \<open>Ki\<close>. The
  new integral is stored exactly when the output \<open>Kp*err + Ki*integ - Kd*deriv\<close> equals
  its clamp to \<open>[0, max_power]\<close>, the value passed to \<open>set_pwm\<close>; otherwise the stored
  integral keeps its value.
\<close>

theorem pid_integral_anti_windup:
  assumes "ControlPID_temperature_callback c h read_time temp = Inr (c', h')"
  shows "let integ = max 0 (min (temp_integ_max c)
                       (prev_temp_integ c
                        + (target_temp h - temp) * (read_time - ControlPID.prev_temp_time c)));
             co = ControlPID.Kp c * (target_temp h - temp) + Ki c * integ
                    - Kd c * prev_temp_deriv c'
         in (0 \<le> temp_integ_max c \<longrightarrow> 0 \<le> integ \<and> integ \<le> temp_integ_max c)
            \<and> (co = max 0 (min (max_power h) co) \<longrightarrow> prev_temp_integ c' = integ)
            \<and> (co \<noteq> max 0 (min (max_power h) co) \<longrightarrow> prev_temp_integ c' = prev_temp_integ c)
            \<and> set_pwm_calls h' = set_pwm_calls h @ [(read_time, max 0 (min (max_power h) co))]
            \<and> (ControlPID_init h0 pid_Kp pid_Ki pid_Kd deriv_time integral_max = Inr c
                \<longrightarrow> Ki c = pid_Ki / 255
                  \<and> temp_integ_max c
                      = (case integral_max of None \<Rightarrow> max_power h0 | Some v \<Rightarrow> v) / Ki c)"
proof -
  note r = PID_callback_results[OF assms]
  have co: "ControlPID.Kp c * (target_temp h - temp)
        + Ki c * max 0 (min (temp_integ_max c)
                       (prev_temp_integ c
                        + (target_temp h - temp) * (read_time - ControlPID.prev_temp_time c)))
        - Kd c * prev_temp_deriv c' = PID_co c h read_time temp"
    unfolding PID_co_def PID_temp_integ_def r(2) by (rule refl)
  have init: "ControlPID_init h0 pid_Kp pid_Ki pid_Kd deriv_time integral_max = Inr c
                \<longrightarrow> Ki c = pid_Ki / 255
                  \<and> temp_integ_max c
                      = (case integral_max of None \<Rightarrow> max_power h0 | Some v \<Rightarrow> v) / Ki c"
    by (auto simp: ControlPID_init_def Let_def PID_PARAM_BASE_def split: if_splits)
  have calls: "set_pwm_calls h' = set_pwm_calls h
      @ [(read_time, max 0 (min (max_power h) (PID_co c h read_time temp)))]"
    unfolding r(4) by (rule set_pwm_calls_Heater_set_pwm)
  show ?thesis
    unfolding Let_def co
    using r(3) init calls clamp_bounds[of "temp_integ_max c"]
    unfolding PID_temp_integ_def
    by presburger
qed

theorem pid_integral_anti_windup_witness:
  "ControlPID_init example_heater 25.5 2.55 127.5 None None = Inr example_pid
   \<and> temp_integ_max example_pid = 1 / Ki example_pid
   \<and> prev_temp_integ example_pid = 0
   \<and> prev_temp_integ
        (fst (projr (ControlPID_temperature_callback example_pid example_heater_200 1 25))) = 0
   \<and> prev_temp_integ example_pid_warm = 5
   \<and> prev_temp_integ
        (fst (projr (ControlPID_temperature_callback example_pid_warm example_heater_200 11 199)))
       = 6"
  using pid_integral_anti_windup [OF example_pid_saturated,
      of example_heater "25.5" "2.55" "127.5" None None]
    pid_integral_anti_windup [OF example_pid_unsaturated,
      of example_heater "25.5" "2.55" "127.5" None None]
    example_pid_init
  unfolding example_pid_saturated example_pid_unsaturated
  by (simp add: example_pid_def example_pid_warm_def)

text \<open>
  C9: with \<open>min_deriv_time > 0\<close> (as the configuration has it) the callback does not raise.
  When the interval \<open>time_diff\<close> is shorter than \<open>min_deriv_time\<close> (and not 0, so that the
  raw estimate \<open>temp_diff / time_diff\<close> exists), the stored derivative is the previous one
  filtered toward the raw estimate with weight \<open>time_diff / min_deriv_time\<close>; at
  \<open>time_diff = 0\<close> it is the previous derivative plus \<open>temp_diff / min_deriv_time\<close>; when
  \<open>time_diff \<ge> min_deriv_time\<close> it is \<open>temp_diff / time_diff\<close>.
\<close>

theorem pid_derivative_filter:
  assumes "0 < min_deriv_time c"
  shows "\<exists>c' h'. ControlPID_temperature_callback c h read_time temp = Inr (c', h')
    \<and> (let time_diff = read_time - ControlPID.prev_temp_time c;
            temp_diff = temp - ControlPID.prev_temp c;
            weight = time_diff / min_deriv_time c
        in (time_diff < min_deriv_time c \<and> time_diff \<noteq> 0
              \<longrightarrow> prev_temp_deriv c'
                    = (1 - weight) * prev_temp_deriv c + weight * (temp_diff / time_diff))
           \<and> (time_diff = 0
              \<longrightarrow> prev_temp_deriv c' = prev_temp_deriv c + temp_diff / min_deriv_time c)
           \<and> (time_diff \<ge> min_deriv_time c \<longrightarrow> prev_temp_deriv c' = temp_diff / time_diff))"
proof -
  have nz: "\<not> PID_zero_div c read_time"
    using assms unfolding PID_zero_div_def by auto
  then obtain c' h' where cb: "ControlPID_temperature_callback c h read_time temp = Inr (c', h')"
    unfolding ControlPID_temperature_callback_eq by simp
  note r = PID_callback_results[OF cb]
  let ?td = "read_time - ControlPID.prev_temp_time c"
  let ?d = "temp - ControlPID.prev_temp c"
  let ?m = "min_deriv_time c"
  have a: "?td < ?m \<Longrightarrow> ?td \<noteq> 0 \<Longrightarrow>
      PID_temp_deriv c read_time temp = (1 - ?td / ?m) * prev_temp_deriv c + ?td / ?m * (?d / ?td)"
    using assms unfolding PID_temp_deriv_def by (simp add: field_simps)
  have b: "?td = 0 \<Longrightarrow> PID_temp_deriv c read_time temp = prev_temp_deriv c + ?d / ?m"
    using assms unfolding PID_temp_deriv_def by (simp add: field_simps)
  have c: "?td \<ge> ?m \<Longrightarrow> PID_temp_deriv c read_time temp = ?d / ?td"
    unfolding PID_temp_deriv_def by simp
  have "(?td < ?m \<and> ?td \<noteq> 0
              \<longrightarrow> prev_temp_deriv c'
                    = (1 - ?td / ?m) * prev_temp_deriv c + ?td / ?m * (?d / ?td))
           \<and> (?td = 0 \<longrightarrow> prev_temp_deriv c' = prev_temp_deriv c + ?d / ?m)
           \<and> (?td \<ge> ?m \<longrightarrow> prev_temp_deriv c' = ?d / ?td)"
    unfolding r(2) using a b c by blast
  then show ?thesis
    unfolding Let_def using cb by blast
qed

theorem pid_derivative_filter_witness:
  "0 < min_deriv_time example_pid
   \<and> prev_temp_deriv
        (fst (projr (ControlPID_temperature_callback example_pid example_heater_200 1 27))) = 1
   \<and> prev_temp_deriv
        (fst (projr (ControlPID_temperature_callback example_pid example_heater_200 4 27))) = 0.5"
  using pid_derivative_filter [of example_pid example_heater_200 1 27]
    pid_derivative_filter [of example_pid example_heater_200 4 27]
  unfolding example_pid_filtered example_pid_unfiltered
  by (simp add: example_pid_def)

subsection \<open>Calibration bump test\<close>

lemma bump_step_state:
  "state (fst (ControlBumpTest_temperature_callback c h read_time temp)) =
     (if state c = 0 then (if length (temp_samples c) + 1 \<ge> 20 then 1 else 0)
      else if state c = 1 then (if temp < target_temp h then 1 else 2)
      else if state c = 2 then (if temp \<le> done_temperature c then 3 else 2)
      else state c)"
  by (simp add: ControlBumpTest_temperature_callback_def Let_def ControlBumpTest_set_pwm_def)

lemma bump_states_hd: "hd (bump_states c h samples) = state c \<and> bump_states c h samples \<noteq> []"
  by (cases samples) (auto split: prod.splits)

lemma bump_states_length: "length (bump_states c h samples) = length samples + 1"
  by (induction samples arbitrary: c h) (auto split: prod.splits)

lemma bump_states_inv:
  "state c \<in> {0, 1, 2, 3} \<Longrightarrow>
   successively (\<lambda>a b. b = a \<or> b = a + 1) (bump_states c h samples)
   \<and> set (bump_states c h samples) \<subseteq> {0, 1, 2, 3}"
proof (induction samples arbitrary: c h)
  case Nil
  then show ?case by simp
next
  case (Cons s samples)
  obtain read_time temp where s: "s = (read_time, temp)" by (cases s)
  obtain c' h' where cb: "ControlBumpTest_temperature_callback c h read_time temp = (c', h')"
    by (cases "ControlBumpTest_temperature_callback c h read_time temp")
  have st: "state c' = (if state c = 0 then (if length (temp_samples c) + 1 \<ge> 20 then 1 else 0)
      else if state c = 1 then (if temp < target_temp h then 1 else 2)
      else if state c = 2 then (if temp \<le> done_temperature c then 3 else 2)
      else state c)"
    using bump_step_state[of c h read_time temp] cb by simp
  have step: "state c' = state c \<or> state c' = state c + 1"
    unfolding st using Cons.prems by auto
  have inv: "state c' \<in> {0, 1, 2, 3}"
    unfolding st using Cons.prems by auto
  from Cons.IH[OF inv, of h'] bump_states_hd[of c' h' samples] step Cons.prems
  show ?case
    unfolding s by (cases "bump_states c' h' samples") (auto simp: cb)
qed

lemma successively_step_sorted:
  "successively (\<lambda>a b. b = a \<or> b = a + 1) (xs :: int list) \<Longrightarrow> sorted xs"
proof -
  assume "successively (\<lambda>a b. b = a \<or> b = a + 1) xs"
  then have "successively (\<le>) xs"
    by (rule successively_mono) auto
  then show ?thesis
    using successively_conv_sorted_wrt[of "(\<le>)" xs] by (auto simp: transp_def)
qed

text \<open>
  C7: over any sequence of callbacks on a fresh \<open>ControlBumpTest\<close> the states form a
  non-decreasing sequence within \<open>{0, 1, 2, 3}\<close> that starts at 0 and grows by at most one
  per callback (each callback, from any session and heater, keeps the state or adds one),
  and \<open>check_busy\<close> is true exactly when the state is below 3.
\<close>

theorem bump_state_monotone:
  "sorted (bump_states ControlBumpTest_init h samples)
   \<and> successively (\<lambda>a b. b = a \<or> b = a + 1) (bump_states ControlBumpTest_init h samples)
   \<and> set (bump_states ControlBumpTest_init h samples) \<subseteq> {0, 1, 2, 3}
   \<and> hd (bump_states ControlBumpTest_init h samples) = 0
   \<and> length (bump_states ControlBumpTest_init h samples) = length samples + 1
   \<and> (state (fst (ControlBumpTest_temperature_callback c h' read_time temp)) = state c
        \<or> state (fst (ControlBumpTest_temperature_callback c h' read_time temp)) = state c + 1)
   \<and> (ControlBumpTest_check_busy c eventtime \<longleftrightarrow> state c < 3)"
proof -
  have init: "state ControlBumpTest_init \<in> {0, 1, 2, 3}"
    by (simp add: ControlBumpTest_init_def)
  note inv = bump_states_inv[OF init, of h samples]
  have "sorted (bump_states ControlBumpTest_init h samples)"
    using inv by (blast intro: successively_step_sorted)
  moreover have "hd (bump_states ControlBumpTest_init h samples) = 0"
    using bump_states_hd[of ControlBumpTest_init h samples]
    by (simp add: ControlBumpTest_init_def)
  moreover have "state (fst (ControlBumpTest_temperature_callback c h' read_time temp)) = state c
        \<or> state (fst (ControlBumpTest_temperature_callback c h' read_time temp)) = state c + 1"
    unfolding bump_step_state by auto
  moreover have "ControlBumpTest_check_busy c eventtime \<longleftrightarrow> state c < 3"
    by (simp add: ControlBumpTest_check_busy_def)
  ultimately show ?thesis
    using inv bump_states_length[of ControlBumpTest_init h samples] by blast
qed

lemma Heater_set_pwm_fields:
  "target_temp (snd (Heater_set_pwm h read_time v)) = target_temp h"
  "pwm_delay (snd (Heater_set_pwm h read_time v)) = pwm_delay h"
  "max_power (snd (Heater_set_pwm h read_time v)) = max_power h"
  by (simp_all add: Heater_set_pwm_def Let_def)

lemma h100_fields:
  "target_temp example_heater_100 = 100" "pwm_delay example_heater_100 = 1"
  "max_power example_heater_100 = 1"
  by (simp_all add: example_heater_100_def example_heater_def Heater_init_def Heater_set_temp_def)

lemma example_bump_states:
  "bump_states ControlBumpTest_init example_heater_100 example_samples
     = [0, 0, 0, 0, 0, 0, 0, 0, 0, 0, 0, 0, 0, 0, 0, 0, 0, 0, 0, 0, 1, 1, 1, 2, 2, 3]"
  by (simp add: example_samples_def h100_fields Heater_set_pwm_fields
      ControlBumpTest_init_def ControlBumpTest_temperature_callback_def
      ControlBumpTest_set_pwm_def Let_def)


lemma example_bump_final:
  "fst (bump_run ControlBumpTest_init example_heater_100 example_samples)
     = \<lparr> state = 3, done_temperature = 48, last_pwm = 0, pwm_samples = [(21, 1), (23, 0)],
         temp_samples = example_samples, ambient_temp = 0 \<rparr>"
  by (simp add: example_samples_def h100_fields Heater_set_pwm_fields
      ControlBumpTest_init_def ControlBumpTest_temperature_callback_def
      ControlBumpTest_set_pwm_def Let_def)

lemma example_bump_rampup:
  "fst (bump_run ControlBumpTest_init example_heater_100 (take 22 example_samples))
     = \<lparr> state = 1, done_temperature = 0, last_pwm = 1, pwm_samples = [(21, 1)],
         temp_samples = take 22 example_samples, ambient_temp = 0 \<rparr>"
  "target_temp (snd (bump_run ControlBumpTest_init example_heater_100
                      (take 22 example_samples))) = 100"
  "state (fst (bump_run ControlBumpTest_init example_heater_100 (take 19 example_samples))) = 0"
  "state (fst (bump_run ControlBumpTest_init example_heater_100 (take 20 example_samples))) = 1"
  by (simp_all add: example_samples_def h100_fields Heater_set_pwm_fields
      ControlBumpTest_init_def ControlBumpTest_temperature_callback_def
      ControlBumpTest_set_pwm_def Let_def)

lemma example_bump_cooling:
  "fst (bump_run ControlBumpTest_init example_heater_100 (take 23 example_samples))
     = \<lparr> state = 2, done_temperature = 48, last_pwm = 0, pwm_samples = [(21, 1), (23, 0)],
         temp_samples = take 23 example_samples, ambient_temp = 0 \<rparr>"
  by (simp add: example_samples_def h100_fields Heater_set_pwm_fields
      ControlBumpTest_init_def ControlBumpTest_temperature_callback_def
      ControlBumpTest_set_pwm_def Let_def)

theorem bump_state_monotone_witness:
  "bump_states ControlBumpTest_init example_heater_100 example_samples
     = [0, 0, 0, 0, 0, 0, 0, 0, 0, 0, 0, 0, 0, 0, 0, 0, 0, 0, 0, 0, 1, 1, 1, 2, 2, 3]
   \<and> sorted (bump_states ControlBumpTest_init example_heater_100 example_samples)
   \<and> ControlBumpTest_check_busy ControlBumpTest_init 0
   \<and> \<not> ControlBumpTest_check_busy
          (fst (bump_run ControlBumpTest_init example_heater_100 example_samples)) 0"
  using bump_state_monotone [of example_heater_100 example_samples]
    example_bump_states example_bump_final
  by (simp add: ControlBumpTest_check_busy_def ControlBumpTest_init_def)

text \<open>
  C3 as stated fails: \<open>start_temp\<close> is \<open>self.temp_samples[0][1]\<close>, the first sample of the
  session (recorded in state 0), not the temperature at the entry into state 1. In the
  example the first sample is 20 and the samples around the entry into state 1 (the 20th
  and 21st) are 30; with target 100 the code computes \<open>20 + 0.35 * 80 = 48\<close>, not
  \<open>30 + 0.35 * 70\<close>.
\<close>

theorem bump_done_temperature_counterexample:
  "state (fst (bump_run ControlBumpTest_init example_heater_100 (take 19 example_samples))) = 0
   \<and> state (fst (bump_run ControlBumpTest_init example_heater_100 (take 20 example_samples))) = 1
   \<and> example_samples ! 19 = (19, 30) \<and> example_samples ! 20 = (20, 30)
   \<and> target_temp example_heater_100 = 100
   \<and> state (fst (bump_run ControlBumpTest_init example_heater_100 (take 23 example_samples))) = 2
   \<and> done_temperature
        (fst (bump_run ControlBumpTest_init example_heater_100 (take 23 example_samples))) = 48
   \<and> done_temperature
        (fst (bump_run ControlBumpTest_init example_heater_100 (take 23 example_samples)))
       \<noteq> 30 + 0.35 * (100 - 30)"
  unfolding example_bump_cooling example_bump_rampup h100_fields
  by (simp add: example_samples_def)

text \<open>
  C3, amended: in state 1 a sample below the target keeps the state and requests
  \<open>max_power\<close>; the first sample at or above the target requests power 0, sets
  \<open>done_temperature = start_temp + 0.35 * (target - start_temp)\<close> with \<open>start_temp\<close> the
  temperature of the first sample the session recorded, overwrites the heater's
  \<open>target_temp\<close> with \<open>done_temperature\<close> and moves to state 2.
\<close>

theorem bump_rampup_end:
  assumes "state c = 1"
    and "ControlBumpTest_temperature_callback c h read_time temp = (c', h')"
  shows "temp_samples c' = temp_samples c @ [(read_time, temp)]
    \<and> (temp < target_temp h \<longrightarrow>
          state c' = 1 \<and> target_temp h' = target_temp h
          \<and> set_pwm_calls h' = set_pwm_calls h @ [(read_time, max_power h)])
    \<and> (temp \<ge> target_temp h \<longrightarrow>
          done_temperature c'
            = snd (hd (temp_samples c')) + 0.35 * (target_temp h - snd (hd (temp_samples c')))
          \<and> target_temp h' = done_temperature c'
          \<and> state c' = 2
          \<and> set_pwm_calls h' = set_pwm_calls h @ [(read_time, 0)])"
proof -
  have c': "c' = fst (ControlBumpTest_temperature_callback c h read_time temp)"
    and h': "h' = snd (ControlBumpTest_temperature_callback c h read_time temp)"
    using assms(2) by simp_all
  show ?thesis
    unfolding c' h'
    using assms(1)
    by (simp add: ControlBumpTest_temperature_callback_def Let_def ControlBumpTest_set_pwm_def
        Heater_set_pwm_fields set_pwm_calls_Heater_set_pwm)
qed

theorem bump_rampup_end_witness:
  "state (fst (bump_run ControlBumpTest_init example_heater_100 (take 22 example_samples))) = 1
   \<and> target_temp (snd (bump_run ControlBumpTest_init example_heater_100
                          (take 22 example_samples))) = 100
   \<and> hd example_samples = (0, 20)
   \<and> done_temperature
        (fst (ControlBumpTest_temperature_callback
               (fst (bump_run ControlBumpTest_init example_heater_100 (take 22 example_samples)))
               (snd (bump_run ControlBumpTest_init example_heater_100 (take 22 example_samples)))
               22 100)) = 48
   \<and> target_temp
        (snd (ControlBumpTest_temperature_callback
               (fst (bump_run ControlBumpTest_init example_heater_100 (take 22 example_samples)))
               (snd (bump_run ControlBumpTest_init example_heater_100 (take 22 example_samples)))
               22 100)) = 48
   \<and> state
        (fst (ControlBumpTest_temperature_callback
               (fst (bump_run ControlBumpTest_init example_heater_100 (take 22 example_samples)))
               (snd (bump_run ControlBumpTest_init example_heater_100 (take 22 example_samples)))
               22 100)) = 2"
  using bump_rampup_end [of
      "fst (bump_run ControlBumpTest_init example_heater_100 (take 22 example_samples))"
      "snd (bump_run ControlBumpTest_init example_heater_100 (take 22 example_samples))"
      22 100
      "fst (ControlBumpTest_temperature_callback
               (fst (bump_run ControlBumpTest_init example_heater_100 (take 22 example_samples)))
               (snd (bump_run ControlBumpTest_init example_heater_100 (take 22 example_samples)))
               22 100)"
      "snd (ControlBumpTest_temperature_callback
               (fst (bump_run ControlBumpTest_init example_heater_100 (take 22 example_samples)))
               (snd (bump_run ControlBumpTest_init example_heater_100 (take 22 example_samples)))
               22 100)"]
    example_bump_rampup(1,2)
  by (simp add: example_samples_def)

subsection \<open>Fitting the model\<close>

lemma foldl_max_tuple_in:
  "foldl (\<lambda>m x. if tuple_less m x then x else m) m xs \<in> set (m # xs)"
  by (induction xs arbitrary: m) auto

lemma tuple_less_trans_le:
  "\<not> tuple_less b a \<Longrightarrow> \<not> tuple_less c b \<Longrightarrow> \<not> tuple_less c a"
  by (auto simp: tuple_less_def)

lemma foldl_max_tuple_mono:
  "\<not> tuple_less (foldl (\<lambda>m x. if tuple_less m x then x else m) m xs) m"
proof (induction xs arbitrary: m)
  case Nil
  show ?case by (simp add: tuple_less_def)
next
  case (Cons x xs)
  show ?case
  proof (cases "tuple_less m x")
    case True
    then have "\<not> tuple_less x m" by (auto simp: tuple_less_def)
    with Cons[of x] True show ?thesis
      using tuple_less_trans_le[of x m "foldl (\<lambda>m x. if tuple_less m x then x else m) x xs"]
      by auto
  next
    case False
    with Cons[of m] show ?thesis by simp
  qed
qed

lemma foldl_max_tuple_ge:
  "x \<in> set (m # xs) \<Longrightarrow>
   \<not> tuple_less (foldl (\<lambda>m x. if tuple_less m x then x else m) m xs) x"
proof (induction xs arbitrary: m)
  case Nil
  then show ?case by (simp add: tuple_less_def)
next
  case (Cons y ys)
  let ?f = "\<lambda>m x. if tuple_less m x then x else m"
  show ?case
  proof (cases "x = m")
    case True
    then show ?thesis using foldl_max_tuple_mono[of m "y # ys"] by simp
  next
    case False
    with Cons.prems have "x \<in> set (y # ys)" by simp
    then have "x \<in> set (?f m y # ys) \<or> (x = y \<and> \<not> tuple_less m y)" by auto
    then show ?thesis
    proof
      assume "x \<in> set (?f m y # ys)"
      from Cons.IH[OF this] show ?thesis by simp
    next
      assume a: "x = y \<and> \<not> tuple_less m y"
      have "\<not> tuple_less (foldl ?f m ys) m" by (rule foldl_max_tuple_mono)
      with a have "\<not> tuple_less (foldl ?f m ys) y"
        using tuple_less_trans_le[of m y "foldl ?f m ys"] by blast
      with a show ?thesis by simp
    qed
  qed
qed

lemma max_tuple_greatest:
  assumes "xs \<noteq> []"
  shows "max_tuple xs \<in> set xs" and "x \<in> set xs \<Longrightarrow> \<not> tuple_less (max_tuple xs) x"
proof -
  obtain m ys where xs: "xs = m # ys" using assms by (cases xs) auto
  show "max_tuple xs \<in> set xs"
    unfolding xs max_tuple_def using foldl_max_tuple_in[of m ys] by simp
  show "x \<in> set xs \<Longrightarrow> \<not> tuple_less (max_tuple xs) x"
    unfolding xs max_tuple_def using foldl_max_tuple_ge[of x m ys] by simp
qed

lemma initial_params_eq:
  assumes "temp_samples c \<noteq> []"
  shows "\<exists>maxtemp maxtemptime.
      (maxtemptime, maxtemp) \<in> set (temp_samples c)
      \<and> (\<forall>(time, temp) \<in> set (temp_samples c).
            temp < maxtemp \<or> (temp = maxtemp \<and> time \<le> maxtemptime))
      \<and> initial_params c =
          [''gain'' \<mapsto> maxtemp * 2,
           ''time_constant'' \<mapsto> fst (last (temp_samples c)) - maxtemptime,
           ''delay'' \<mapsto> 10]"
proof -
  let ?ps = "map (\<lambda>(time, temp). (temp, time)) (temp_samples c)"
  have ne: "?ps \<noteq> []" using assms by simp
  obtain maxtemp maxtemptime where m: "max_tuple ?ps = (maxtemp, maxtemptime)"
    by (cases "max_tuple ?ps")
  have "(maxtemp, maxtemptime) \<in> set ?ps"
    using max_tuple_greatest(1)[OF ne] m by simp
  then have mem: "(maxtemptime, maxtemp) \<in> set (temp_samples c)" by auto
  have ge: "temp < maxtemp \<or> (temp = maxtemp \<and> time \<le> maxtemptime)"
    if "(time, temp) \<in> set (temp_samples c)" for time temp
  proof -
    from that have "(temp, time) \<in> set ?ps" by force
    from max_tuple_greatest(2)[OF ne this] m show ?thesis
      by (auto simp: tuple_less_def)
  qed
  have "initial_params c =
          [''gain'' \<mapsto> maxtemp * 2,
           ''time_constant'' \<mapsto> fst (last (temp_samples c)) - maxtemptime,
           ''delay'' \<mapsto> 10]"
    unfolding initial_params_def m by simp
  with mem ge show ?thesis by blast
qed


lemma calc_fopdt_eq:
  assumes "pwm_samples c = (heater_on_time, on_value) # others"
    and "pre_heat_of c heater_on_time \<noteq> []"
  shows "calc_fopdt coordinate_descent c =
     (case coordinate_descent [''gain'', ''time_constant'', ''delay'']
             (initial_params
                (c\<lparr>ambient_temp := sum_list (pre_heat_of c heater_on_time)
                                      / real (length (pre_heat_of c heater_on_time))\<rparr>))
             (least_squares_error
                (c\<lparr>ambient_temp := sum_list (pre_heat_of c heater_on_time)
                                      / real (length (pre_heat_of c heater_on_time))\<rparr>)) of
        Inl e \<Rightarrow> Inl e
      | Inr new_params \<Rightarrow>
          (case (new_params ''gain'', new_params ''time_constant'', new_params ''delay'') of
             (Some gain', Some time_constant, Some delay) \<Rightarrow>
               Inr ((gain', time_constant, delay),
                    c\<lparr>ambient_temp := sum_list (pre_heat_of c heater_on_time)
                                      / real (length (pre_heat_of c heater_on_time))\<rparr>)
           | _ \<Rightarrow> Inl KeyError))"
  using assms by (simp add: calc_fopdt_def Let_def)

text \<open>
  C8 as stated fails at the boundary: the ambient temperature averages the samples with
  \<open>time \<le> heater_on_time\<close>, the time logged for the first PWM edge (\<open>read_time +
  pwm_delay\<close> of the callback that switched the heater on). In the example the sample at
  time 21, recorded after the heater was switched on at time 20, is part of the mean (30
  instead of \<open>620 / 21\<close>).
\<close>

theorem calc_fopdt_ambient_counterexample:
  "pwm_samples (fst (bump_run ControlBumpTest_init example_heater_100 example_samples))
     = [(21, 1), (23, 0)]
   \<and> temp_samples (fst (bump_run ControlBumpTest_init example_heater_100 example_samples)) ! 21
     = (21, 40)
   \<and> calc_fopdt keep_initial
        (fst (bump_run ControlBumpTest_init example_heater_100 example_samples))
     = Inr ((200, 2, 10),
            fst (bump_run ControlBumpTest_init example_heater_100 example_samples)
              \<lparr>ambient_temp := 30\<rparr>)
   \<and> sum_list (map snd (filter (\<lambda>(time, temp). time < 21)
         (temp_samples (fst (bump_run ControlBumpTest_init example_heater_100 example_samples)))))
       / real (length (map snd (filter (\<lambda>(time, temp). time < 21)
         (temp_samples (fst (bump_run ControlBumpTest_init example_heater_100 example_samples))))))
     = 620 / 21
   \<and> (30 :: real) \<noteq> 620 / 21"
  unfolding example_bump_final
  by (simp add: calc_fopdt_def pre_heat_of_def initial_params_def max_tuple_def tuple_less_def
      keep_initial_def example_samples_def Let_def)

text \<open>
  C8, amended: \<open>calc_fopdt\<close> sets \<open>ambient_temp\<close> to the arithmetic mean of the temperature
  samples whose time is at or before the time logged for the first PWM edge; it seeds the
  optimizer with gain = 2 * the maximum temperature, time_constant = the last sample's
  time minus the (latest) time of that maximum, delay = 10; it calls the optimizer on the
  names \<open>gain\<close>, \<open>time_constant\<close>, \<open>delay\<close> with \<open>least_squares_error\<close> (of the session with
  the new \<open>ambient_temp\<close>) as objective and returns the three fitted values.
\<close>

theorem calc_fopdt_fit:
  assumes "pwm_samples c = (heater_on_time, on_value) # others"
    and "pre_heat = map snd (filter (\<lambda>(time, temp). time \<le> heater_on_time) (temp_samples c))"
    and "pre_heat \<noteq> []"
    and "c1 = c\<lparr>ambient_temp := sum_list pre_heat / real (length pre_heat)\<rparr>"
  shows "\<exists>maxtemp maxtemptime.
      (maxtemptime, maxtemp) \<in> set (temp_samples c)
      \<and> (\<forall>(time, temp) \<in> set (temp_samples c).
            temp < maxtemp \<or> (temp = maxtemp \<and> time \<le> maxtemptime))
      \<and> calc_fopdt coordinate_descent c =
          (case coordinate_descent [''gain'', ''time_constant'', ''delay'']
                  [''gain'' \<mapsto> maxtemp * 2,
                   ''time_constant'' \<mapsto> fst (last (temp_samples c)) - maxtemptime,
                   ''delay'' \<mapsto> 10]
                  (least_squares_error c1) of
             Inl e \<Rightarrow> Inl e
           | Inr new_params \<Rightarrow>
               (case (new_params ''gain'', new_params ''time_constant'', new_params ''delay'') of
                  (Some gain', Some time_constant, Some delay) \<Rightarrow>
                    Inr ((gain', time_constant, delay), c1)
                | _ \<Rightarrow> Inl KeyError))"
proof -
  have pre: "pre_heat_of c heater_on_time = pre_heat"
    unfolding pre_heat_of_def assms(2) by (rule refl)
  have ne: "temp_samples c1 \<noteq> []"
    using assms(2,3) unfolding assms(4) by auto
  have ts: "temp_samples c1 = temp_samples c"
    unfolding assms(4) by simp
  from initial_params_eq[OF ne] obtain maxtemp maxtemptime where
    mem: "(maxtemptime, maxtemp) \<in> set (temp_samples c)"
    and ge: "\<forall>(time, temp) \<in> set (temp_samples c).
            temp < maxtemp \<or> (temp = maxtemp \<and> time \<le> maxtemptime)"
    and ip: "initial_params c1 =
          [''gain'' \<mapsto> maxtemp * 2,
           ''time_constant'' \<mapsto> fst (last (temp_samples c)) - maxtemptime,
           ''delay'' \<mapsto> 10]"
    unfolding ts by blast
  have ne': "pre_heat_of c heater_on_time \<noteq> []"
    unfolding pre using assms(3) .
  have "calc_fopdt coordinate_descent c =
          (case coordinate_descent [''gain'', ''time_constant'', ''delay'']
                  [''gain'' \<mapsto> maxtemp * 2,
                   ''time_constant'' \<mapsto> fst (last (temp_samples c)) - maxtemptime,
                   ''delay'' \<mapsto> 10]
                  (least_squares_error c1) of
             Inl e \<Rightarrow> Inl e
           | Inr new_params \<Rightarrow>
               (case (new_params ''gain'', new_params ''time_constant'', new_params ''delay'') of
                  (Some gain', Some time_constant, Some delay) \<Rightarrow>
                    Inr ((gain', time_constant, delay), c1)
                | _ \<Rightarrow> Inl KeyError))"
    unfolding calc_fopdt_eq[OF assms(1) ne'] pre ip[symmetric] assms(4) by (rule refl)
  with mem ge show ?thesis by blast
qed

theorem calc_fopdt_fit_witness:
  "pwm_samples (fst (bump_run ControlBumpTest_init example_heater_100 example_samples))
     = [(21, 1), (23, 0)]
   \<and> map snd (filter (\<lambda>(time, temp). time \<le> 21)
         (temp_samples (fst (bump_run ControlBumpTest_init example_heater_100 example_samples))))
       \<noteq> []
   \<and> calc_fopdt keep_initial
        (fst (bump_run ControlBumpTest_init example_heater_100 example_samples))
     = Inr ((200, 2, 10),
            fst (bump_run ControlBumpTest_init example_heater_100 example_samples)
              \<lparr>ambient_temp := 660 / 22\<rparr>)"
  using calc_fopdt_fit [of
      "fst (bump_run ControlBumpTest_init example_heater_100 example_samples)" 21 1 "[(23, 0)]"
      "map snd (filter (\<lambda>(time, temp). time \<le> 21)
         (temp_samples (fst (bump_run ControlBumpTest_init example_heater_100 example_samples))))"
      "fst (bump_run ControlBumpTest_init example_heater_100 example_samples)
         \<lparr>ambient_temp := sum_list (map snd (filter (\<lambda>(time, temp). time \<le> 21)
             (temp_samples (fst (bump_run ControlBumpTest_init example_heater_100
                example_samples)))))
           / real (length (map snd (filter (\<lambda>(time, temp). time \<le> 21)
             (temp_samples (fst (bump_run ControlBumpTest_init example_heater_100
                example_samples))))))\<rparr>"
      keep_initial]
  unfolding example_bump_final
  by (simp add: calc_fopdt_def pre_heat_of_def initial_params_def max_tuple_def tuple_less_def
      keep_initial_def example_samples_def Let_def)

subsection \<open>Target temperature\<close>

text \<open>
  C6: \<open>Heater.set_temp\<close> raises the out-of-range error if and only if \<open>degrees \<noteq> 0\<close> and
  \<open>degrees\<close> lies outside \<open>[min_temp, max_temp]\<close>; a target of 0 always succeeds; on success
  \<open>target_temp\<close> is \<open>degrees\<close> (and nothing else changes), on error the heater is unchanged.
\<close>

theorem set_temp_out_of_range_iff:
  "(fst (Heater_set_temp h print_time degrees) \<noteq> None
      \<longleftrightarrow> degrees \<noteq> 0 \<and> \<not> (min_temp h \<le> degrees \<and> degrees \<le> max_temp h))
   \<and> fst (Heater_set_temp h print_time 0) = None
   \<and> (fst (Heater_set_temp h print_time degrees) = None
        \<longrightarrow> snd (Heater_set_temp h print_time degrees) = h\<lparr>target_temp := degrees\<rparr>)
   \<and> (fst (Heater_set_temp h print_time degrees) \<noteq> None
        \<longrightarrow> fst (Heater_set_temp h print_time degrees)
              = Some (HeaterError degrees (min_temp h) (max_temp h))
            \<and> snd (Heater_set_temp h print_time degrees) = h)"
  by (auto simp: Heater_set_temp_def)

theorem set_temp_out_of_range_iff_witness:
  "fst (Heater_set_temp (Heater_init 0 300 0.3 170 1 False) 1 301) = Some (HeaterError 301 0 300)
   \<and> snd (Heater_set_temp (Heater_init 0 300 0.3 170 1 False) 1 301)
       = Heater_init 0 300 0.3 170 1 False
   \<and> fst (Heater_set_temp (Heater_init 0 300 0.3 170 1 False) 1 300) = None
   \<and> target_temp (snd (Heater_set_temp (Heater_init 0 300 0.3 170 1 False) 1 300)) = 300
   \<and> fst (Heater_set_temp (Heater_init 0 300 0.3 170 1 False) 1 0) = None"
  using set_temp_out_of_range_iff [of "Heater_init 0 300 0.3 170 1 False" 1 301]
    set_temp_out_of_range_iff [of "Heater_init 0 300 0.3 170 1 False" 1 300]
  by (simp add: Heater_init_def)

end
